theory Spec2Isabelle
  imports Complex_Main "HOL-Library.AList"
begin

section \<open>Python values: dictionaries and exceptions\<close>

text \<open>
  A Python \<^verbatim>\<open>dict\<close> keeps its items in insertion order and has one item per key.
  It is modelled as an association list: iteration is the order of the list,
  \<^verbatim>\<open>d[k]\<close> is \<open>dict_get\<close> (a \<^verbatim>\<open>KeyError\<close> when the key is absent),
  \<^verbatim>\<open>d[k] = v\<close> is \<open>AList.update\<close> (the value is replaced in place, or the item
  is added at the end) and \<^verbatim>\<open>d.update(e)\<close> is \<open>dict_update\<close>.
\<close>

type_synonym ('k, 'a) dict = "('k \<times> 'a) list"

text \<open>
  The messages of the \<^verbatim>\<open>ValueError\<close>s that occur:
  \<^item> \<open>UnknownStellarClass key\<close>: "Classifier returned unknown stellar class: '%s'" % key;
  \<^item> \<open>ProbabilityRange\<close>: "Classifier should return probability between 0 and 1.";
  \<^item> \<open>InvalidFileFormat\<close>: "Invalid file format";
  \<^item> \<open>CacheDirMissing\<close>: "features_cache directory does not exists";
  \<^item> \<open>EmptyMax\<close>: the built-in \<^verbatim>\<open>max\<close> on an empty iterable;
  \<^item> \<open>InconsistentSamples\<close>, \<open>NoLabelsGiven\<close>, \<open>NoLabelInYTrue\<close>: raised by
    scikit-learn's metrics.
\<close>

datatype 'c message =
    UnknownStellarClass 'c
  | ProbabilityRange
  | InvalidFileFormat
  | CacheDirMissing
  | EmptyMax
  | InconsistentSamples
  | NoLabelsGiven
  | NoLabelInYTrue

datatype 'c error =
    ValueError "'c message"
  | NotImplementedError
  | KeyError string
  | IndexError
  | TypeError
  | AssertionError
  | UnboundLocalError
  | OSError

definition dict_get :: "(string, 'a) dict \<Rightarrow> string \<Rightarrow> 'c error + 'a" where
  "dict_get d k = (case map_of d k of None \<Rightarrow> Inl (KeyError k) | Some v \<Rightarrow> Inr v)"

definition dict_update :: "('k, 'a) dict \<Rightarrow> ('k, 'a) dict \<Rightarrow> ('k, 'a) dict" where
  "dict_update e d = fold (\<lambda>(k, v). AList.update k v) e d"

text \<open>\<^verbatim>\<open>xs[0]\<close>: an \<^verbatim>\<open>IndexError\<close> on the empty sequence.\<close>

definition first :: "'a list \<Rightarrow> 'c error + 'a" where
  "first xs = (case xs of [] \<Rightarrow> Inl IndexError | x # _ \<Rightarrow> Inr x)"

text \<open>
  A Python \<^verbatim>\<open>float\<close>: a real number, one of the two infinities, or NaN. \<open>py_less a b\<close>
  is \<^verbatim>\<open>a < b\<close>, and \<^verbatim>\<open>a > b\<close> is \<open>py_less b a\<close>: a comparison with NaN on either
  side is false.
\<close>

datatype pyfloat = Finite real | PosInf | NegInf | NaN

fun py_less :: "pyfloat \<Rightarrow> pyfloat \<Rightarrow> bool" where
  "py_less NaN b = False"
| "py_less a NaN = False"
| "py_less (Finite a) (Finite b) = (a < b)"
| "py_less (Finite a) PosInf = True"
| "py_less (Finite a) NegInf = False"
| "py_less PosInf b = False"
| "py_less NegInf (Finite b) = True"
| "py_less NegInf PosInf = True"
| "py_less NegInf NegInf = False"

section \<open>The class taxonomies\<close>

text \<open>
  The module \<^verbatim>\<open>StellarClasses\<close> is imported by \<^verbatim>\<open>BaseClassifier.py\<close> but is not
  part of the sources at hand, so the two enumerations are parameters of the model:
  \<open>'c\<close> is the type of enumeration members, \<open>StellarClasses\<close> and
  \<open>StellarClassesLevel2\<close> list the members of each enumeration in iteration order,
  the six named members are those that \<^verbatim>\<open>parse_labels\<close> refers to, and
  \<open>enum_value\<close> is the attribute \<^verbatim>\<open>.value\<close> of a member. The labels of a star
  and the keys of a classification result are members of one of the two enumerations;
  a member of one enumeration is never equal to a member of the other.
\<close>

record ('c, 'v) enums =
  StellarClasses :: "'c list"
  StellarClassesLevel2 :: "'c list"
  ECLIPSE :: 'c
  RRLYR_CEPHEID :: 'c
  CONTACT_ROT :: 'c
  DSCT_BCEP :: 'c
  GDOR_SPB :: 'c
  SOLARLIKE :: 'c
  enum_value :: "'c \<Rightarrow> 'v"

section \<open>The classifier object\<close>

datatype STATUS = UNKNOWN | STARTED | OK | ERROR | WARNING | ABORT | SKIPPED

fun status_code :: "STATUS \<Rightarrow> nat" where
  "status_code UNKNOWN = 0"
| "status_code STARTED = 6"
| "status_code OK = 1"
| "status_code ERROR = 2"
| "status_code WARNING = 3"
| "status_code ABORT = 4"
| "status_code SKIPPED = 5"

datatype level = L1 | L2

definition level_name :: "level \<Rightarrow> string" where
  "level_name l = (case l of L1 \<Rightarrow> ''L1'' | L2 \<Rightarrow> ''L2'')"

record classifier =
  tset_key :: "string option"
  plot :: bool
  level :: level
  features_cache :: "string option"
  data_dir :: string
  classifier_key :: string

text \<open>\<^verbatim>\<open>os.path.join\<close> (POSIX) of a path and one more component.\<close>

definition os_path_join :: "string \<Rightarrow> string \<Rightarrow> string" where
  "os_path_join path b =
     (if b \<noteq> [] \<and> hd b = CHR ''/'' then b
      else if path = [] \<or> last path = CHR ''/'' then path @ b
      else path @ ''/'' @ b)"

text \<open>The table of \<^verbatim>\<open>__init__\<close> from the name of the class to its short identifier.\<close>

definition classifier_keys :: "(string, string) dict" where
  "classifier_keys =
     [(''BaseClassifier'', ''base''),
      (''RFGCClassifier'', ''rfgc''),
      (''SLOSHClassifier'', ''slosh''),
      (''XGBClassifier'', ''xgb''),
      (''MetaClassifier'', ''meta'')]"

text \<open>
  \<^verbatim>\<open>__init__\<close>. \<open>class_name\<close> is \<^verbatim>\<open>self.__class__.__name__\<close>, \<open>here\<close> the
  directory of the module, \<open>abspath\<close> and \<open>path_exists\<close> the functions of
  \<^verbatim>\<open>os.path\<close>. The level arrives as a string and is asserted to be one of the two
  names. Creating the data directory and the debug line of the logger are left out.
\<close>

definition init ::
  "string \<Rightarrow> string \<Rightarrow> (string \<Rightarrow> string) \<Rightarrow> (string \<Rightarrow> bool) \<Rightarrow>
   string option \<Rightarrow> string option \<Rightarrow> string \<Rightarrow> bool \<Rightarrow> 'c error + classifier" where
  "init class_name here abspath path_exists tset_key' features_cache' level' plot' =
     (if level' \<noteq> ''L1'' \<and> level' \<noteq> ''L2'' then Inl AssertionError
      else if features_cache' \<noteq> None \<and> \<not> path_exists (the features_cache')
        then Inl (ValueError CacheDirMissing)
      else (case map_of classifier_keys class_name of
          None \<Rightarrow> Inl (KeyError class_name)
        | Some ck \<Rightarrow>
            Inr \<lparr> tset_key = tset_key',
                  plot = plot',
                  level = (if level' = ''L1'' then L1 else L2),
                  features_cache = features_cache',
                  data_dir =
                    (case tset_key' of
                       Some tk \<Rightarrow>
                         abspath (os_path_join (os_path_join (os_path_join here ''data'') level') tk)
                     | None \<Rightarrow> abspath (os_path_join (os_path_join here ''data'') level')),
                  classifier_key = ck \<rparr>))"

text \<open>\<^verbatim>\<open>self.StellarClasses\<close>: the enumeration of the level the classifier runs at.\<close>

definition taxonomy :: "('c, 'v) enums \<Rightarrow> classifier \<Rightarrow> 'c list" where
  "taxonomy E clf = (case level clf of L1 \<Rightarrow> StellarClasses E | L2 \<Rightarrow> StellarClassesLevel2 E)"

section \<open>The observable world\<close>

text \<open>
  Feature bundles and tasks are dictionaries from names to Python values of a type
  \<open>'x\<close> that the model leaves open. A classification result is a dictionary from
  enumeration members to floats.
\<close>

type_synonym 'x feature_bundle = "(string, 'x) dict"
type_synonym 'c probabilities = "('c, pyfloat) dict"

text \<open>The values of the result dictionary that \<^verbatim>\<open>test\<close> builds for the task manager.\<close>

datatype ('c, 'x) resval =
    Val 'x
  | Name string
  | Status STATUS
  | Probabilities "'c probabilities"

type_synonym ('c, 'x) result = "(string, ('c, 'x) resval) dict"

text \<open>
  The lines handed to the logger:
  \<^item> \<open>Info_ZeroTestfraction\<close>: "Test-fraction is zero, so no testing is performed.";
  \<^item> \<open>Info_Accuracy a\<close>: 'Accuracy: %.2f%%' with the argument \<^verbatim>\<open>acc*100\<close>
    (\<open>None\<close> stands for NaN, the accuracy of an empty sample);
  \<^item> \<open>Debug_Result\<close> and \<open>Debug_Features\<close>: the debug lines of \<^verbatim>\<open>test\<close> and
    \<^verbatim>\<open>load_star\<close>.
\<close>

datatype ('c, 'x) logline =
    Info_ZeroTestfraction
  | Info_Accuracy "real option"
  | Debug_Result "('c, 'x) result"
  | Debug_Features "'x feature_bundle"

text \<open>What \<^verbatim>\<open>plotConfMatrix\<close>, \<^verbatim>\<open>plt.title\<close> put on the figure that is saved.\<close>

record 'v figure =
  matrix :: "nat list list"
  tick_labels :: "'v list"
  title :: string

text \<open>
  The effects of the methods are made explicit as a state that each method takes and
  returns:
  \<^item> \<open>logged\<close>: the lines handed to the logger, in order;
  \<^item> \<open>opened\<close>: the observation files opened (\<^verbatim>\<open>np.loadtxt\<close>, \<^verbatim>\<open>fits.open\<close>);
  \<^item> \<open>pickles\<close>: the pickle files on disk, path to the bundle stored;
  \<^item> \<open>computed\<close>: the light curves \<^verbatim>\<open>calc_features\<close> was invoked on;
  \<^item> \<open>classified\<close>: the bundles \<^verbatim>\<open>do_classify\<close> was invoked on;
  \<^item> \<open>saved\<close>: the records \<^verbatim>\<open>save_func\<close> was invoked on;
  \<^item> \<open>figures\<close>: the image files written by \<^verbatim>\<open>fig.savefig\<close>, path to content.
\<close>

record ('c, 'v, 'x) world =
  logged :: "('c, 'x) logline list"
  opened :: "string list"
  pickles :: "(string, 'x feature_bundle) dict"
  computed :: "'x list"
  classified :: "'x feature_bundle list"
  saved :: "('c, 'x) result list"
  figures :: "(string, 'v figure) dict"

section \<open>The classification contract: \<^verbatim>\<open>classify\<close>\<close>

text \<open>
  The loop of \<^verbatim>\<open>classify\<close> over \<^verbatim>\<open>res.items()\<close>, with the test
  \<^verbatim>\<open>value < 0 or value > 1\<close> of line 140.
\<close>

fun check_results :: "'c list \<Rightarrow> 'c probabilities \<Rightarrow> 'c error + unit" where
  "check_results T [] = Inr ()"
| "check_results T ((k, v) # items) =
     (if k \<notin> set T then Inl (ValueError (UnknownStellarClass k))
      else if py_less v (Finite 0) \<or> py_less (Finite 1) v then Inl (ValueError ProbabilityRange)
      else check_results T items)"

text \<open>
  \<^verbatim>\<open>do_classify\<close> is the method a variant overrides; it is a parameter. The one of
  the base class raises.
\<close>

definition do_classify_base :: "'x feature_bundle \<Rightarrow> 'c error + 'c probabilities" where
  "do_classify_base features = Inl NotImplementedError"

definition classify ::
  "('c, 'v) enums \<Rightarrow> classifier \<Rightarrow> ('x feature_bundle \<Rightarrow> 'c error + 'c probabilities) \<Rightarrow>
   'x feature_bundle \<Rightarrow> ('c, 'v, 'x) world \<Rightarrow> ('c error + 'c probabilities) \<times> ('c, 'v, 'x) world" where
  "classify E clf do_classify features w =
     (let w1 = w\<lparr>classified := classified w @ [features]\<rparr> in
      case do_classify features of
        Inl e \<Rightarrow> (Inl e, w1)
      | Inr res \<Rightarrow>
          (case check_results (taxonomy E clf) res of
             Inl e \<Rightarrow> (Inl e, w1)
           | Inr _ \<Rightarrow> (Inr res, w1)))"

section \<open>Label resolution: \<^verbatim>\<open>parse_labels\<close>\<close>

text \<open>The body of the loop of \<^verbatim>\<open>parse_labels\<close>: the value appended for one star.\<close>

definition fitlabel :: "('c, 'v) enums \<Rightarrow> 'c list \<Rightarrow> 'c error + 'v" where
  "fitlabel E lbl =
     (if length lbl > 1 then
        (if ECLIPSE E \<in> set lbl then Inr (enum_value E (ECLIPSE E))
         else if RRLYR_CEPHEID E \<in> set lbl then Inr (enum_value E (RRLYR_CEPHEID E))
         else if CONTACT_ROT E \<in> set lbl then Inr (enum_value E (CONTACT_ROT E))
         else if DSCT_BCEP E \<in> set lbl then Inr (enum_value E (DSCT_BCEP E))
         else if GDOR_SPB E \<in> set lbl then Inr (enum_value E (GDOR_SPB E))
         else if SOLARLIKE E \<in> set lbl then Inr (enum_value E (SOLARLIKE E))
         else map_sum id (enum_value E) (first lbl))
      else map_sum id (enum_value E) (first lbl))"

fun parse_labels_loop ::
  "('c, 'v) enums \<Rightarrow> 'c list list \<Rightarrow> 'v list \<Rightarrow> 'c error + 'v list" where
  "parse_labels_loop E [] fitlabels = Inr fitlabels"
| "parse_labels_loop E (lbl # labels) fitlabels =
     (case fitlabel E lbl of
        Inl e \<Rightarrow> Inl e
      | Inr v \<Rightarrow> parse_labels_loop E labels (fitlabels @ [v]))"

definition parse_labels :: "('c, 'v) enums \<Rightarrow> 'c list list \<Rightarrow> 'c error + 'v list" where
  "parse_labels E labels = parse_labels_loop E labels []"

section \<open>The test harness: \<^verbatim>\<open>test\<close>\<close>

text \<open>
  The training set is a collaborator outside the sources; the harness reads its
  attributes \<^verbatim>\<open>testfraction\<close>, \<^verbatim>\<open>key\<close> and \<^verbatim>\<open>test_idx\<close> and iterates over
  \<^verbatim>\<open>features_test()\<close> and \<^verbatim>\<open>labels_test(level=...)\<close>.
\<close>

record ('c, 'x) training_set =
  testfraction :: real
  key :: string
  test_idx :: "nat list"
  features_test :: "'x feature_bundle list"
  labels_test :: "level \<Rightarrow> 'c list list"

text \<open>
  The built-in \<^verbatim>\<open>max(iterable, key=f)\<close>: the first item is the candidate, and a later
  item replaces it only when its key is strictly greater (\<^verbatim>\<open>key(item) > key(candidate)\<close>,
  false when either key is NaN); the empty iterable raises.
\<close>

fun py_max_from :: "('a \<Rightarrow> pyfloat) \<Rightarrow> 'a \<Rightarrow> 'a list \<Rightarrow> 'a" where
  "py_max_from f m [] = m"
| "py_max_from f m (x # xs) = py_max_from f (if py_less (f m) (f x) then x else m) xs"

definition py_max :: "('a \<Rightarrow> pyfloat) \<Rightarrow> 'a list \<Rightarrow> 'c error + 'a" where
  "py_max f xs = (case xs of [] \<Rightarrow> Inl (ValueError EmptyMax) | x # rest \<Rightarrow> Inr (py_max_from f x rest))"

text \<open>
  \<^verbatim>\<open>max(d, key=lambda key: d[key])\<close> for the result dictionary \<open>d\<close>: iterating a
  dictionary yields its keys in order, and \<^verbatim>\<open>d[key]\<close> is the value stored with that
  key, so the maximum runs over the items, compared by their values, and yields the key.
\<close>

definition max_class :: "'c probabilities \<Rightarrow> 'c error + 'c" where
  "max_class d = map_sum id fst (py_max snd d)"

text \<open>
  The body of the loop of \<^verbatim>\<open>test\<close> for one bundle of the test set. \<open>save_func\<close>
  tells whether a callable was passed; calling the default \<^verbatim>\<open>None\<close> is a
  \<^verbatim>\<open>TypeError\<close>. The progress bar of \<^verbatim>\<open>tqdm\<close> has no part in the result.
\<close>

definition test_step ::
  "('c, 'v) enums \<Rightarrow> classifier \<Rightarrow> ('x feature_bundle \<Rightarrow> 'c error + 'c probabilities) \<Rightarrow>
   bool \<Rightarrow> bool \<Rightarrow> 'x feature_bundle \<Rightarrow> 'v list \<Rightarrow> ('c, 'v, 'x) world \<Rightarrow>
   ('c error + 'v list) \<times> ('c, 'v, 'x) world" where
  "test_step E clf do_classify save save_func features y_pred w =
     (case dict_get features ''priority'' of
        Inl e \<Rightarrow> (Inl e, w)
      | Inr p \<Rightarrow>
          (let res = [(''priority'', Val p),
                      (''classifier'', Name (classifier_key clf)),
                      (''status'', Status OK)]
           in case classify E clf do_classify features w of
                (Inl e, w1) \<Rightarrow> (Inl e, w1)
              | (Inr probs, w1) \<Rightarrow>
                  (let res = AList.update ''starclass_results'' (Probabilities probs) res
                   in case max_class probs of
                        Inl e \<Rightarrow> (Inl e, w1)
                      | Inr c \<Rightarrow>
                          (let prediction = enum_value E c;
                               y_pred = y_pred @ [prediction]
                           in if save then
                                (let w2 = w1\<lparr>logged := logged w1 @ [Debug_Result res]\<rparr>
                                 in if save_func
                                    then (Inr y_pred, w2\<lparr>saved := saved w2 @ [res]\<rparr>)
                                    else (Inl TypeError, w2))
                              else (Inr y_pred, w1)))))"

text \<open>The loop over \<^verbatim>\<open>zip(tset.features_test(), tset.labels_test(level=self.level))\<close>.\<close>

fun test_loop ::
  "('c, 'v) enums \<Rightarrow> classifier \<Rightarrow> ('x feature_bundle \<Rightarrow> 'c error + 'c probabilities) \<Rightarrow>
   bool \<Rightarrow> bool \<Rightarrow> ('x feature_bundle \<times> 'c list) list \<Rightarrow> 'v list \<Rightarrow> ('c, 'v, 'x) world \<Rightarrow>
   ('c error + 'v list) \<times> ('c, 'v, 'x) world" where
  "test_loop E clf do_classify save save_func [] y_pred w = (Inr y_pred, w)"
| "test_loop E clf do_classify save save_func (fl # rest) y_pred w =
     (case test_step E clf do_classify save save_func (fst fl) y_pred w of
        (Inl e, w1) \<Rightarrow> (Inl e, w1)
      | (Inr y_pred1, w1) \<Rightarrow> test_loop E clf do_classify save save_func rest y_pred1 w1)"

text \<open>\<^verbatim>\<open>[lbl[0].value for lbl in tset.labels_test(level=self.level)]\<close>\<close>

fun first_values :: "('c, 'v) enums \<Rightarrow> 'c list list \<Rightarrow> 'c error + 'v list" where
  "first_values E [] = Inr []"
| "first_values E (lbl # labels) =
     (case first lbl of
        Inl e \<Rightarrow> Inl e
      | Inr l \<Rightarrow> map_sum id (\<lambda>vs. enum_value E l # vs) (first_values E labels))"

text \<open>
  The two functions of \<^verbatim>\<open>sklearn.metrics\<close>, which is outside the repository, from
  their documentation. \<^verbatim>\<open>accuracy_score\<close> is the share of positions where the two
  sequences agree (NaN, here \<open>None\<close>, for no sample). \<^verbatim>\<open>confusion_matrix\<close> with
  \<^verbatim>\<open>labels\<close> given has one row and one column per label, in the order given; entry
  \<open>(i, j)\<close> counts the samples whose true label is the \<open>i\<close>-th and whose predicted
  label is the \<open>j\<close>-th, and a sample with a label outside \<^verbatim>\<open>labels\<close> is counted
  nowhere. Both refuse sequences of different lengths; the matrix also refuses an empty
  list of labels and a non-empty \<^verbatim>\<open>y_true\<close> that holds none of the labels.
\<close>

definition accuracy_score :: "'v list \<Rightarrow> 'v list \<Rightarrow> 'c error + real option" where
  "accuracy_score y_true y_pred =
     (if length y_true \<noteq> length y_pred then Inl (ValueError InconsistentSamples)
      else if y_true = [] then Inr None
      else Inr (Some (real (length (filter (\<lambda>(t, p). t = p) (zip y_true y_pred)))
                       / real (length y_true))))"

definition confusion_matrix :: "'v list \<Rightarrow> 'v list \<Rightarrow> 'v list \<Rightarrow> 'c error + nat list list" where
  "confusion_matrix y_true y_pred labels =
     (if length y_true \<noteq> length y_pred then Inl (ValueError InconsistentSamples)
      else if labels = [] then Inl (ValueError NoLabelsGiven)
      else if y_true \<noteq> [] \<and> list_all (\<lambda>t. t \<notin> set labels) y_true
        then Inl (ValueError NoLabelInYTrue)
      else Inr (map (\<lambda>t. map (\<lambda>p.
             length (filter (\<lambda>(a, b). a = t \<and> b = p) (zip y_true y_pred))) labels) labels))"

text \<open>The name of the image file the harness writes.\<close>

definition confusion_matrix_file :: "classifier \<Rightarrow> ('c, 'x) training_set \<Rightarrow> string" where
  "confusion_matrix_file clf tset =
     os_path_join (data_dir clf)
       (''confusion_matrix_'' @ key tset @ ''_'' @ level_name (level clf) @ ''_''
          @ classifier_key clf @ ''.png'')"

definition test ::
  "('c, 'v) enums \<Rightarrow> classifier \<Rightarrow> ('x feature_bundle \<Rightarrow> 'c error + 'c probabilities) \<Rightarrow>
   ('c, 'x) training_set \<Rightarrow> bool \<Rightarrow> bool \<Rightarrow> ('c, 'v, 'x) world \<Rightarrow>
   ('c error + unit) \<times> ('c, 'v, 'x) world" where
  "test E clf do_classify tset save save_func w =
     (if testfraction tset \<le> 0
      then (Inr (), w\<lparr>logged := logged w @ [Info_ZeroTestfraction]\<rparr>)
      else
        (let all_classes = map (enum_value E) (StellarClasses E)
         in case test_loop E clf do_classify save save_func
                   (zip (features_test tset) (labels_test tset (level clf))) [] w of
              (Inl e, w1) \<Rightarrow> (Inl e, w1)
            | (Inr y_pred, w1) \<Rightarrow>
                (case first_values E (labels_test tset (level clf)) of
                   Inl e \<Rightarrow> (Inl e, w1)
                 | Inr labels_test' \<Rightarrow>
                     (case accuracy_score labels_test' y_pred of
                        Inl e \<Rightarrow> (Inl e, w1)
                      | Inr acc \<Rightarrow>
                          (let w2 = w1\<lparr>logged := logged w1
                                      @ [Info_Accuracy (map_option (\<lambda>a. a * 100) acc)]\<rparr>
                           in case confusion_matrix labels_test' y_pred all_classes of
                                Inl e \<Rightarrow> (Inl e, w2)
                              | Inr cf \<Rightarrow>
                                  (Inr (),
                                   w2\<lparr>figures :=
                                        AList.update (confusion_matrix_file clf tset)
                                          \<lparr> matrix = cf,
                                            tick_labels = all_classes,
                                            title = classifier_key clf @ '' - '' @ key tset
                                              @ '' - '' @ level_name (level clf) \<rparr>
                                          (figures w2)\<rparr>))))))"

section \<open>The feature loader: \<^verbatim>\<open>load_star\<close> and \<^verbatim>\<open>calc_features\<close>\<close>

type_synonym 'x task = "(string, 'x) dict"

text \<open>
  What the loader calls outside the sources, each able to raise:
  \<^item> \<open>str\<close>: the built-in \<^verbatim>\<open>str\<close>, applied to the priority of the task;
  \<^item> \<open>loadtxt\<close>: \<^verbatim>\<open>np.loadtxt(fname)\<close>;
  \<^item> \<open>text_columns\<close>: what is read off the table before the task is looked at
    (\<^verbatim>\<open>data.shape[1]\<close>, the quality column, the columns 0 to 2);
  \<^item> \<open>TessLightCurve\<close>: the constructor, from these columns and the star's id;
  \<^item> \<open>fits_lightcurve\<close>: \<^verbatim>\<open>fits.open(fname)\<close> and the constructor on its columns;
  \<^item> \<open>remove_nans\<close>, \<open>powerspectrum\<close>, \<open>freqextr\<close>, \<open>FliPer\<close>: the feature
    routines that \<^verbatim>\<open>calc_features\<close> calls.
\<close>

record ('c, 'x) collaborators =
  str :: "'x \<Rightarrow> string"
  loadtxt :: "string \<Rightarrow> 'c error + 'x"
  text_columns :: "'x \<Rightarrow> 'c error + 'x"
  TessLightCurve :: "'x \<Rightarrow> 'x \<Rightarrow> 'c error + 'x"
  fits_lightcurve :: "string \<Rightarrow> 'c error + 'x"
  remove_nans :: "'x \<Rightarrow> 'c error + 'x"
  powerspectrum :: "'x \<Rightarrow> 'c error + 'x"
  freqextr :: "'x \<Rightarrow> 'c error + 'x feature_bundle"
  FliPer :: "'x \<Rightarrow> 'c error + 'x feature_bundle"

text \<open>\<^verbatim>\<open>s.endswith(sfx)\<close>\<close>

definition endswith :: "string \<Rightarrow> string \<Rightarrow> bool" where
  "endswith s sfx = (length sfx \<le> length s \<and> drop (length s - length sfx) s = sfx)"

text \<open>
  Modelled from the spec: \<^verbatim>\<open>savePickle\<close> and \<^verbatim>\<open>loadPickle\<close> of the module
  \<^verbatim>\<open>utilities\<close>, which is not among the sources. The spec asks of the cache file that
  it holds a serialized bundle and that loading what was saved gives the bundle back;
  so saving stores the bundle under the path (replacing what was there) and loading
  returns the bundle stored. \<^verbatim>\<open>os.path.exists\<close> on a cache path tells whether a
  pickle is stored under it.
\<close>

definition savePickle ::
  "string \<Rightarrow> 'x feature_bundle \<Rightarrow> ('c, 'v, 'x) world \<Rightarrow> ('c, 'v, 'x) world" where
  "savePickle fname obj w = w\<lparr>pickles := AList.update fname obj (pickles w)\<rparr>"

definition loadPickle :: "string \<Rightarrow> ('c, 'v, 'x) world \<Rightarrow> 'c error + 'x feature_bundle" where
  "loadPickle fname w = (case map_of (pickles w) fname of None \<Rightarrow> Inl OSError | Some obj \<Rightarrow> Inr obj)"

definition os_path_exists :: "('c, 'v, 'x) world \<Rightarrow> string \<Rightarrow> bool" where
  "os_path_exists w fname = (map_of (pickles w) fname \<noteq> None)"

text \<open>The dispatch on the suffix of the file name: lines 262 to 312 of the source.\<close>

definition load_lightcurve ::
  "('c, 'x) collaborators \<Rightarrow> 'x task \<Rightarrow> string \<Rightarrow> ('c, 'v, 'x) world \<Rightarrow>
   ('c error + 'x) \<times> ('c, 'v, 'x) world" where
  "load_lightcurve C task fname w =
     (if endswith fname ''.noisy'' \<or> endswith fname ''.sysnoise''
         \<or> endswith fname ''.txt'' \<or> endswith fname ''.clean''
      then
        (let w1 = w\<lparr>opened := opened w @ [fname]\<rparr>
         in case loadtxt C fname of
              Inl e \<Rightarrow> (Inl e, w1)
            | Inr data \<Rightarrow>
                (case text_columns C data of
                   Inl e \<Rightarrow> (Inl e, w1)
                 | Inr columns \<Rightarrow>
                     (case dict_get task ''starid'' of
                        Inl e \<Rightarrow> (Inl e, w1)
                      | Inr starid \<Rightarrow> (TessLightCurve C columns starid, w1))))
      else if endswith fname ''.fits'' \<or> endswith fname ''.fits.gz''
      then (fits_lightcurve C fname, w\<lparr>opened := opened w @ [fname]\<rparr>)
      else (Inl (ValueError InvalidFileFormat), w))"

definition calc_features ::
  "('c, 'x) collaborators \<Rightarrow> 'x \<Rightarrow> ('c, 'v, 'x) world \<Rightarrow>
   ('c error + 'x feature_bundle) \<times> ('c, 'v, 'x) world" where
  "calc_features C lightcurve w =
     (let w1 = w\<lparr>computed := computed w @ [lightcurve]\<rparr>;
          features = AList.update ''lightcurve'' lightcurve []
      in case remove_nans C lightcurve of
           Inl e \<Rightarrow> (Inl e, w1)
         | Inr lc \<Rightarrow>
             (case powerspectrum C lc of
                Inl e \<Rightarrow> (Inl e, w1)
              | Inr psd \<Rightarrow>
                  (let features = AList.update ''powerspectrum'' psd features
                   in case freqextr C lightcurve of
                        Inl e \<Rightarrow> (Inl e, w1)
                      | Inr fe \<Rightarrow>
                          (let features = dict_update fe features
                           in case FliPer C psd of
                                Inl e \<Rightarrow> (Inl e, w1)
                              | Inr fp \<Rightarrow> (Inr (dict_update fp features), w1)))))"

text \<open>
  Lines 314 to 320: the name of the cache file, when a cache is configured (the
  attribute is truthy: neither \<^verbatim>\<open>None\<close> nor the empty string), and the bundle
  loaded from it when it exists. The bundle stays empty otherwise.
\<close>

definition read_cache ::
  "('c, 'x) collaborators \<Rightarrow> classifier \<Rightarrow> 'x task \<Rightarrow> ('c, 'v, 'x) world \<Rightarrow>
   'c error + (string option \<times> 'x feature_bundle)" where
  "read_cache C clf task w =
     (case features_cache clf of
        None \<Rightarrow> Inr (None, [])
      | Some cache \<Rightarrow>
          if cache = [] then Inr (None, [])
          else
            (case dict_get task ''priority'' of
               Inl e \<Rightarrow> Inl e
             | Inr p \<Rightarrow>
                 (let features_file = os_path_join cache (''features-'' @ str C p @ ''.pickle'')
                  in if os_path_exists w features_file
                     then map_sum id (\<lambda>features. (Some features_file, features))
                            (loadPickle features_file w)
                     else Inr (Some features_file, []))))"

text \<open>Lines 328 to 333: the fields of the task that are put into the bundle.\<close>

definition add_task_fields :: "'x task \<Rightarrow> 'x feature_bundle \<Rightarrow> 'c error + 'x feature_bundle" where
  "add_task_fields task features =
     (case dict_get task ''priority'' of
        Inl e \<Rightarrow> Inl e
      | Inr p \<Rightarrow>
          (let features = AList.update ''priority'' p features
           in case dict_get task ''starid'' of
                Inl e \<Rightarrow> Inl e
              | Inr s \<Rightarrow>
                  (let features = AList.update ''starid'' s features
                   in Inr (fold (\<lambda>k f. case map_of task k of
                                          Some v \<Rightarrow> AList.update k v f
                                        | None \<Rightarrow> f)
                             [''tmag'', ''variance'', ''rms_hour'', ''ptp'', ''other_classifiers'']
                             features))))"

text \<open>
  Lines 328 to 339: attach the fields, write the cache file when
  \<^verbatim>\<open>save_to_cache and self.features_cache\<close>, return the bundle. \<open>features_file\<close> is
  \<open>None\<close> while the variable of that name is unbound.
\<close>

definition finish_star ::
  "classifier \<Rightarrow> 'x task \<Rightarrow> string option \<Rightarrow> 'x feature_bundle \<Rightarrow> bool \<Rightarrow> ('c, 'v, 'x) world \<Rightarrow>
   ('c error + 'x feature_bundle) \<times> ('c, 'v, 'x) world" where
  "finish_star clf task features_file features save_to_cache w =
     (case add_task_fields task features of
        Inl e \<Rightarrow> (Inl e, w)
      | Inr features \<Rightarrow>
          if save_to_cache \<and> features_cache clf \<noteq> None \<and> features_cache clf \<noteq> Some []
          then (case features_file of
                  None \<Rightarrow> (Inl UnboundLocalError, w)
                | Some fname \<Rightarrow> (Inr features, savePickle fname features w))
          else (Inr features, w))"

definition load_star ::
  "('c, 'x) collaborators \<Rightarrow> classifier \<Rightarrow> 'x task \<Rightarrow> string \<Rightarrow> ('c, 'v, 'x) world \<Rightarrow>
   ('c error + 'x feature_bundle) \<times> ('c, 'v, 'x) world" where
  "load_star C clf task fname w =
     (if classifier_key clf \<noteq> ''meta'' then
        (case load_lightcurve C task fname w of
           (Inl e, w1) \<Rightarrow> (Inl e, w1)
         | (Inr lightcurve, w1) \<Rightarrow>
             (case read_cache C clf task w1 of
                Inl e \<Rightarrow> (Inl e, w1)
              | Inr (features_file, features) \<Rightarrow>
                  if features = [] then
                    (case calc_features C lightcurve w1 of
                       (Inl e, w2) \<Rightarrow> (Inl e, w2)
                     | (Inr features, w2) \<Rightarrow>
                         finish_star clf task features_file features True
                           (w2\<lparr>logged := logged w2 @ [Debug_Features features]\<rparr>))
                  else finish_star clf task features_file features False w1))
      else finish_star clf task None [] False w)"

section \<open>Concrete inputs\<close>

text \<open>
  A small instance of the parameters, used where a statement is evaluated on a concrete
  input: two enumerations whose members are written as strings (the members of the
  second differ from all members of the first, as members of different enumerations
  do, while they share values with them), a classifier object with a given short identifier, level and cache directory,
  and a world in which nothing has happened yet.
\<close>

definition example_enums :: "(string, string) enums" where
  "example_enums =
     \<lparr> StellarClasses = [''SOLAR'', ''ECLIPSE'', ''RRLYR'', ''GDOR'', ''DSCT'', ''CONTACT'', ''CONSTANT''],
       StellarClassesLevel2 = [''SOLAR2'', ''ECLIPSE2''],
       ECLIPSE = ''ECLIPSE'',
       RRLYR_CEPHEID = ''RRLYR'',
       CONTACT_ROT = ''CONTACT'',
       DSCT_BCEP = ''DSCT'',
       GDOR_SPB = ''GDOR'',
       SOLARLIKE = ''SOLAR'',
       enum_value = (\<lambda>c. case map_of
           [(''SOLAR'', ''solar''), (''ECLIPSE'', ''eclipse''), (''RRLYR'', ''rrlyr''),
            (''GDOR'', ''gdor''), (''DSCT'', ''dsct''), (''CONTACT'', ''contact''),
            (''CONSTANT'', ''constant''), (''SOLAR2'', ''solar''), (''ECLIPSE2'', ''eclipse'')] c of
             Some v \<Rightarrow> v
           | None \<Rightarrow> []) \<rparr>"

definition example_classifier :: "string \<Rightarrow> level \<Rightarrow> string option \<Rightarrow> classifier" where
  "example_classifier ck lv cache =
     \<lparr> tset_key = None, plot = False, level = lv, features_cache = cache,
       data_dir = ''/data'', classifier_key = ck \<rparr>"

definition empty_world :: "(string, string, string) world" where
  "empty_world =
     \<lparr> logged = [], opened = [], pickles = [], computed = [], classified = [], saved = [],
       figures = [] \<rparr>"

text \<open>
  A training set of three stars with the ground truth eclipse, solar, eclipse (the last
  one with a second label) at either level, and a variant that gives the eclipse class
  the probability 1 and every other class it names the probability 0.
\<close>

definition example_tset :: "real \<Rightarrow> (string, string) training_set" where
  "example_tset tf =
     \<lparr> testfraction = tf,
       key = ''ts'',
       test_idx = [0, 1, 2],
       features_test = [[(''priority'', ''17'')], [(''priority'', ''18'')], [(''priority'', ''19'')]],
       labels_test = (\<lambda>l. case l of
           L1 \<Rightarrow> [[''ECLIPSE''], [''SOLAR''], [''ECLIPSE'', ''SOLAR'']]
         | L2 \<Rightarrow> [[''ECLIPSE2''], [''SOLAR2''], [''ECLIPSE2'']]) \<rparr>"

definition always_eclipse :: "level \<Rightarrow> string feature_bundle \<Rightarrow> string error + string probabilities" where
  "always_eclipse l features =
     (case l of
        L1 \<Rightarrow> Inr [(''SOLAR'', Finite 0), (''ECLIPSE'', Finite 1), (''RRLYR'', Finite 0)]
      | L2 \<Rightarrow> Inr [(''SOLAR2'', Finite 0), (''ECLIPSE2'', Finite 1)])"

text \<open>
  Collaborators that always succeed with fixed results, and a task with the two
  required fields, one of the optional fields and one field the loader does not copy.
\<close>

definition example_collaborators :: "(string, string) collaborators" where
  "example_collaborators =
     \<lparr> str = (\<lambda>x. x),
       loadtxt = (\<lambda>fname. Inr ''table''),
       text_columns = (\<lambda>data. Inr ''columns''),
       TessLightCurve = (\<lambda>columns starid. Inr ''lc''),
       fits_lightcurve = (\<lambda>fname. Inr ''lc''),
       remove_nans = (\<lambda>lightcurve. Inr ''lc0''),
       powerspectrum = (\<lambda>lc. Inr ''psd''),
       freqextr = (\<lambda>lightcurve. Inr [(''freq1'', ''f1'')]),
       FliPer = (\<lambda>psd. Inr [(''Fp07'', ''p7'')]) \<rparr>"

definition example_task :: "string task" where
  "example_task = [(''priority'', ''17''), (''starid'', ''4711''), (''tmag'', ''9.5''), (''sector'', ''2'')]"

section \<open>Properties of label resolution\<close>

lemma fitlabel_nonempty:
  "lbl \<noteq> [] \<Longrightarrow>
   fitlabel E lbl =
     Inr (enum_value E
       (if length lbl > 1 then
          (case find (\<lambda>c. c \<in> set lbl)
                  [ECLIPSE E, RRLYR_CEPHEID E, CONTACT_ROT E, DSCT_BCEP E, GDOR_SPB E, SOLARLIKE E] of
             Some c \<Rightarrow> c
           | None \<Rightarrow> hd lbl)
        else hd lbl))"
  by (cases lbl) (simp_all add: fitlabel_def first_def)

lemma fitlabel_empty: "fitlabel E [] = Inl IndexError"
  by (simp add: fitlabel_def first_def)

lemma parse_labels_loop_ok:
  "[] \<notin> set labels \<Longrightarrow>
   parse_labels_loop E labels acc =
     Inr (acc @ map (\<lambda>lbl. enum_value E
       (if length lbl > 1 then
          (case find (\<lambda>c. c \<in> set lbl)
                  [ECLIPSE E, RRLYR_CEPHEID E, CONTACT_ROT E, DSCT_BCEP E, GDOR_SPB E, SOLARLIKE E] of
             Some c \<Rightarrow> c
           | None \<Rightarrow> hd lbl)
        else hd lbl)) labels)"
proof (induction labels arbitrary: acc)
  case Nil
  then show ?case by simp
next
  case (Cons lbl labels)
  from Cons.prems have ne: "lbl \<noteq> []" and rest: "[] \<notin> set labels" by auto
  show ?case
    unfolding parse_labels_loop.simps fitlabel_nonempty [OF ne]
    by (simp add: Cons.IH [OF rest])
qed

lemma parse_labels_loop_empty_entry:
  "[] \<in> set labels \<Longrightarrow> parse_labels_loop E labels acc = Inl IndexError"
proof (induction labels arbitrary: acc)
  case Nil
  then show ?case by simp
next
  case (Cons lbl labels)
  show ?case
  proof (cases "lbl = []")
    case True
    then show ?thesis by (simp add: fitlabel_empty)
  next
    case False
    with Cons.prems have "[] \<in> set labels" by auto
    with Cons.IH False show ?thesis
      by (simp add: fitlabel_nonempty)
  qed
qed

text \<open>
  Claim C2. \<^verbatim>\<open>parse_labels\<close> yields one value per star. An entry with more than one
  label is resolved to the value of the first class of the fixed order ECLIPSE,
  RRLYR_CEPHEID, CONTACT_ROT, DSCT_BCEP, GDOR_SPB, SOLARLIKE that occurs among its
  labels; when none of the six occurs, or the entry has exactly one label, the value of
  the first listed label is taken. (An entry with no label at all makes \<^verbatim>\<open>lbl[0]\<close>
  raise \<^verbatim>\<open>IndexError\<close>; the statement covers that case too, so it holds for every
  input.)
\<close>

theorem parse_labels_priority_order:
  "parse_labels E labels =
     (if [] \<in> set labels then Inl IndexError
      else Inr (map (\<lambda>lbl. enum_value E
        (if length lbl > 1 then
           (case find (\<lambda>c. c \<in> set lbl)
                   [ECLIPSE E, RRLYR_CEPHEID E, CONTACT_ROT E, DSCT_BCEP E, GDOR_SPB E, SOLARLIKE E] of
              Some c \<Rightarrow> c
            | None \<Rightarrow> hd lbl)
         else hd lbl)) labels))"
  using parse_labels_loop_ok [of labels E "[]"] parse_labels_loop_empty_entry [of labels E "[]"]
  by (simp add: parse_labels_def)

text \<open>
  The two scenarios of the spec and the remaining cases: eclipse wins over solar-like
  whatever the order of the labels, gamma Doradus wins over solar-like, a single label
  and a pair without any of the six classes give the first label, and an entry without
  a label raises.
\<close>

theorem parse_labels_priority_order_witness:
  "parse_labels example_enums
     [[''SOLAR'', ''ECLIPSE''], [''GDOR'', ''SOLAR''], [''CONSTANT''], [''CONSTANT'', ''SOLAR2'']]
     = Inr [''eclipse'', ''gdor'', ''constant'', ''constant'']
   \<and> parse_labels example_enums [[''SOLAR''], []] = Inl IndexError"
  using parse_labels_priority_order [of example_enums
      "[[''SOLAR'', ''ECLIPSE''], [''GDOR'', ''SOLAR''], [''CONSTANT''], [''CONSTANT'', ''SOLAR2'']]"]
    parse_labels_priority_order [of example_enums "[[''SOLAR''], []]"]
  by (simp add: example_enums_def)

section \<open>Properties of the constructor\<close>

text \<open>
  A classifier object that \<^verbatim>\<open>__init__\<close> has built carries one of the five short
  identifiers of the table, the one of its class, and its cache directory, when it has
  one, exists.
\<close>

lemma init_classifier_key:
  assumes "init class_name here abspath path_exists tk fc lv pl = Inr clf"
  shows "map_of classifier_keys class_name = Some (classifier_key clf)
     \<and> classifier_key clf \<in> {''base'', ''rfgc'', ''slosh'', ''xgb'', ''meta''}
     \<and> features_cache clf = fc
     \<and> (\<forall>cache. fc = Some cache \<longrightarrow> path_exists cache)"
proof -
  from assms obtain ck where ck: "map_of classifier_keys class_name = Some ck"
    and clf: "classifier_key clf = ck" "features_cache clf = fc"
    and ex: "fc = None \<or> path_exists (the fc)"
    by (auto simp: init_def split: if_splits option.splits)
  from ck have "ck \<in> {''base'', ''rfgc'', ''slosh'', ''xgb'', ''meta''}"
    by (auto simp: classifier_keys_def split: if_splits)
  with ck clf ex show ?thesis by auto
qed

section \<open>Properties of the classification contract\<close>

lemma py_in_range:
  "\<not> py_less v (Finite 0) \<and> \<not> py_less (Finite 1) v \<longleftrightarrow>
     v = NaN \<or> (\<exists>r. v = Finite r \<and> 0 \<le> r \<and> r \<le> 1)"
  by (cases v) auto

lemma check_results_Inr_iff:
  "check_results T res = Inr u \<longleftrightarrow>
     (\<forall>(k, v) \<in> set res. k \<in> set T \<and> (v = NaN \<or> (\<exists>r. v = Finite r \<and> 0 \<le> r \<and> r \<le> 1)))"
proof (induction T res rule: check_results.induct)
  case (1 T)
  show ?case by simp
next
  case (2 T k v items)
  show ?case
  proof (cases "k \<in> set T \<and> \<not> py_less v (Finite 0) \<and> \<not> py_less (Finite 1) v")
    case True
    with "2.IH" True [unfolded py_in_range] show ?thesis by simp
  next
    case False
    then have "\<not> (k \<in> set T \<and> (v = NaN \<or> (\<exists>r. v = Finite r \<and> 0 \<le> r \<and> r \<le> 1)))"
      unfolding py_in_range [symmetric] by simp
    with False show ?thesis by auto
  qed
qed

lemma check_results_Inl:
  "check_results T res = Inl e \<Longrightarrow>
     (\<exists>k \<in> fst ` set res. k \<notin> set T \<and> e = ValueError (UnknownStellarClass k))
     \<or> (\<exists>v \<in> snd ` set res. (py_less v (Finite 0) \<or> py_less (Finite 1) v)
           \<and> e = ValueError ProbabilityRange)"
  by (induction T res rule: check_results.induct) (auto split: if_splits)

lemma classify_world:
  "snd (classify E clf do_classify features w) = w\<lparr>classified := classified w @ [features]\<rparr>"
  by (simp add: classify_def Let_def split: sum.splits)

lemma classify_raises:
  "do_classify features = Inl e \<Longrightarrow> fst (classify E clf do_classify features w) = Inl e"
  by (simp add: classify_def Let_def)

text \<open>
  What \<^verbatim>\<open>classify\<close> does on every input: the mapping is returned, as it is, exactly
  when every key is a member of the enumeration of the level and every value is a number
  from 0 to 1 or NaN; otherwise the error names a foreign key of the mapping or tells
  of a value below 0 or above 1.
\<close>

lemma classify_returns_iff:
  "fst (classify E clf do_classify features w) = Inr res \<longleftrightarrow>
     do_classify features = Inr res
     \<and> (\<forall>(k, v) \<in> set res. k \<in> set (taxonomy E clf)
           \<and> (v = NaN \<or> (\<exists>r. v = Finite r \<and> 0 \<le> r \<and> r \<le> 1)))"
proof (cases "do_classify features")
  case (Inl e)
  then show ?thesis by (simp add: classify_def Let_def)
next
  case (Inr r)
  show ?thesis
  proof (cases "check_results (taxonomy E clf) r")
    case (Inl e)
    then have "\<not> (\<forall>(k, v) \<in> set r. k \<in> set (taxonomy E clf)
           \<and> (v = NaN \<or> (\<exists>r. v = Finite r \<and> 0 \<le> r \<and> r \<le> 1)))"
      using check_results_Inr_iff [of "taxonomy E clf" r "()"] by simp
    with Inl Inr show ?thesis by (auto simp: classify_def Let_def)
  next
    case Inr': (Inr u)
    then have "\<forall>(k, v) \<in> set r. k \<in> set (taxonomy E clf)
           \<and> (v = NaN \<or> (\<exists>r. v = Finite r \<and> 0 \<le> r \<and> r \<le> 1))"
      using check_results_Inr_iff [of "taxonomy E clf" r u] by simp
    with Inr Inr' show ?thesis by (auto simp: classify_def Let_def)
  qed
qed

lemma classify_refuses:
  assumes "do_classify features = Inr res"
    and "fst (classify E clf do_classify features w) = Inl e"
  shows "(\<exists>k \<in> fst ` set res. k \<notin> set (taxonomy E clf) \<and> e = ValueError (UnknownStellarClass k))
     \<or> (\<exists>v \<in> snd ` set res. (py_less v (Finite 0) \<or> py_less (Finite 1) v)
           \<and> e = ValueError ProbabilityRange)"
proof -
  from assms have "check_results (taxonomy E clf) res = Inl e"
    by (cases "check_results (taxonomy E clf) res") (simp_all add: classify_def Let_def)
  then show ?thesis by (rule check_results_Inl)
qed

text \<open>
  Claim C1. \<^verbatim>\<open>classify\<close> invokes \<^verbatim>\<open>do_classify\<close> and returns its mapping unchanged
  if and only if every key is a member of the enumeration of the level and every value
  lies in the closed interval from 0 to 1; a foreign key raises the \<^verbatim>\<open>ValueError\<close>
  about an unknown stellar class and a value out of range the \<^verbatim>\<open>ValueError\<close>
  "Classifier should return probability between 0 and 1."

  The code keeps to this for every value that is a number (the lemmas above), and
  departs from it for NaN. The test \<^verbatim>\<open>value < 0 or value > 1\<close> is false for NaN, so
  a mapping with a NaN value and keys of the enumeration is returned, although NaN is
  not a number between 0 and 1 and the message of the error says that such a number is
  what the classifier should return. On the first mapping below \<^verbatim>\<open>classify\<close>
  returns; on the second, with 3/2 in the place of NaN, it raises.
\<close>

theorem classify_returns_nan:
  "fst (classify example_enums (example_classifier ''rfgc'' L1 None)
          (\<lambda>f. Inr [(''SOLAR'', NaN), (''ECLIPSE'', Finite (9 / 10))]) [] empty_world)
     = Inr [(''SOLAR'', NaN), (''ECLIPSE'', Finite (9 / 10))]
   \<and> \<not> (\<exists>r. NaN = Finite r \<and> 0 \<le> r \<and> r \<le> 1)
   \<and> fst (classify example_enums (example_classifier ''rfgc'' L1 None)
          (\<lambda>f. Inr [(''SOLAR'', Finite (3 / 2)), (''ECLIPSE'', Finite (9 / 10))]) [] empty_world)
     = Inl (ValueError ProbabilityRange)"
  by (simp add: classify_def taxonomy_def example_enums_def example_classifier_def)

section \<open>Properties of the test harness\<close>

subsection \<open>The predicted class\<close>

lemma py_less_irrefl: "\<not> py_less a a"
  by (cases a) auto

lemma py_less_asym: "py_less a b \<Longrightarrow> \<not> py_less b a"
  by (cases a; cases b) auto

lemma py_less_not_greater_trans:
  "py_less a b \<Longrightarrow> \<not> py_less c b \<Longrightarrow> c \<noteq> NaN \<Longrightarrow> py_less a c"
  by (cases a; cases b; cases c) auto

lemma py_not_less_less_trans:
  "\<not> py_less a b \<Longrightarrow> py_less a c \<Longrightarrow> b \<noteq> NaN \<Longrightarrow> py_less b c"
  by (cases a; cases b; cases c) auto

lemma py_max_from_post:
  "\<forall>x \<in> set post. \<not> py_less (f r) (f x) \<Longrightarrow> py_max_from f r post = r"
  by (induction post) auto

lemma py_max_from_pre:
  "\<forall>x \<in> set pre. py_less (f x) (f r) \<Longrightarrow> py_less (f m) (f r) \<Longrightarrow>
   py_max_from f m (pre @ r # post) = py_max_from f r post"
  by (induction pre arbitrary: m) auto

lemma py_max_first_maximum:
  assumes "\<forall>x \<in> set pre. py_less (f x) (f r)" and "\<forall>x \<in> set post. \<not> py_less (f r) (f x)"
  shows "py_max f (pre @ r # post) = Inr r"
proof (cases pre)
  case Nil
  with assms show ?thesis by (simp add: py_max_def py_max_from_post)
next
  case (Cons m pre')
  with assms show ?thesis
    by (simp add: py_max_def py_max_from_pre py_max_from_post)
qed

lemma py_max_from_split:
  assumes "\<forall>x \<in> set (m # xs). f x \<noteq> NaN"
  shows "\<exists>pre post. m # xs = pre @ py_max_from f m xs # post
     \<and> (\<forall>x \<in> set pre. py_less (f x) (f (py_max_from f m xs)))
     \<and> (\<forall>x \<in> set post. \<not> py_less (f (py_max_from f m xs)) (f x))"
  using assms
proof (induction xs arbitrary: m)
  case Nil
  show ?case by (intro exI [of _ "[]"]) simp
next
  case (Cons x xs)
  from Cons.prems have nx: "f x \<noteq> NaN" by simp
  show ?case
  proof (cases "py_less (f m) (f x)")
    case True
    define r where "r = py_max_from f x xs"
    from True have res: "py_max_from f m (x # xs) = r" by (simp add: r_def)
    from Cons.prems have "\<forall>y \<in> set (x # xs). f y \<noteq> NaN" by simp
    from Cons.IH [OF this] obtain pre post where s: "x # xs = pre @ r # post"
      and lt: "\<forall>y \<in> set pre. py_less (f y) (f r)"
      and le: "\<forall>y \<in> set post. \<not> py_less (f r) (f y)"
      unfolding r_def by blast
    from s have "r \<in> set (x # xs)" by (metis in_set_conv_decomp)
    with Cons.prems have nr: "f r \<noteq> NaN" by (metis list.set_intros(2))
    have "\<not> py_less (f r) (f x)"
    proof (cases pre)
      case Nil
      with s show ?thesis by (simp add: py_less_irrefl)
    next
      case (Cons a pre')
      with s lt have "py_less (f x) (f r)" by auto
      then show ?thesis by (rule py_less_asym)
    qed
    from True this nr have "py_less (f m) (f r)" by (rule py_less_not_greater_trans)
    with s lt le have "m # x # xs = (m # pre) @ r # post
        \<and> (\<forall>y \<in> set (m # pre). py_less (f y) (f r))
        \<and> (\<forall>y \<in> set post. \<not> py_less (f r) (f y))"
      by simp
    then show ?thesis unfolding res by blast
  next
    case False
    define r where "r = py_max_from f m xs"
    from False have res: "py_max_from f m (x # xs) = r" by (simp add: r_def)
    from Cons.prems have "\<forall>y \<in> set (m # xs). f y \<noteq> NaN" by simp
    from Cons.IH [OF this] obtain pre post where s: "m # xs = pre @ r # post"
      and lt: "\<forall>y \<in> set pre. py_less (f y) (f r)"
      and le: "\<forall>y \<in> set post. \<not> py_less (f r) (f y)"
      unfolding r_def by blast
    show ?thesis
    proof (cases pre)
      case Nil
      with s have "r = m" and "xs = post" by simp_all
      with False le have "m # x # xs = [] @ r # (x # post)
          \<and> (\<forall>y \<in> set []. py_less (f y) (f r))
          \<and> (\<forall>y \<in> set (x # post). \<not> py_less (f r) (f y))"
        by auto
      then show ?thesis unfolding res by blast
    next
      case (Cons a pre')
      with s have a: "a = m" and xs: "xs = pre' @ r # post" by simp_all
      from lt Cons a have "py_less (f m) (f r)" by simp
      from False this nx have "py_less (f x) (f r)" by (rule py_not_less_less_trans)
      with lt le xs Cons a have "m # x # xs = (m # x # pre') @ r # post
          \<and> (\<forall>y \<in> set (m # x # pre'). py_less (f y) (f r))
          \<and> (\<forall>y \<in> set post. \<not> py_less (f r) (f y))"
        by simp
      then show ?thesis unfolding res by blast
    qed
  qed
qed

lemma max_class_first_maximum:
  assumes "probs = pre @ (c, p) # post"
    and "\<forall>(k, q) \<in> set pre. py_less q p" and "\<forall>(k, q) \<in> set post. \<not> py_less p q"
  shows "max_class probs = Inr c"
proof -
  have "\<forall>x \<in> set pre. py_less (snd x) (snd (c, p))"
    and "\<forall>x \<in> set post. \<not> py_less (snd (c, p)) (snd x)"
    using assms(2,3) by auto
  then show ?thesis
    unfolding assms(1) max_class_def by (simp add: py_max_first_maximum)
qed

lemma max_class_iff:
  assumes "NaN \<notin> snd ` set probs"
  shows "max_class probs = Inr c \<longleftrightarrow>
     (\<exists>pre p post. probs = pre @ (c, p) # post
        \<and> (\<forall>(k, q) \<in> set pre. py_less q p) \<and> (\<forall>(k, q) \<in> set post. \<not> py_less p q))"
proof
  assume m: "max_class probs = Inr c"
  then obtain x rest where probs: "probs = x # rest"
    by (cases probs) (auto simp: max_class_def py_max_def)
  define r where "r = py_max_from snd x rest"
  from m probs have c: "fst r = c" by (simp add: max_class_def py_max_def r_def)
  have "\<forall>y \<in> set (x # rest). snd y \<noteq> NaN"
  proof
    fix y assume "y \<in> set (x # rest)"
    with probs have "y \<in> set probs" by simp
    then have "snd y \<in> snd ` set probs" by (rule imageI)
    with assms show "snd y \<noteq> NaN" by metis
  qed
  from py_max_from_split [OF this] obtain pre post where
    "x # rest = pre @ r # post" "\<forall>y \<in> set pre. py_less (snd y) (snd r)"
    "\<forall>y \<in> set post. \<not> py_less (snd r) (snd y)"
    unfolding r_def by blast
  with probs c have "probs = pre @ (c, snd r) # post
        \<and> (\<forall>(k, q) \<in> set pre. py_less q (snd r)) \<and> (\<forall>(k, q) \<in> set post. \<not> py_less (snd r) q)"
    by (cases r) auto
  then show "\<exists>pre p post. probs = pre @ (c, p) # post
        \<and> (\<forall>(k, q) \<in> set pre. py_less q p) \<and> (\<forall>(k, q) \<in> set post. \<not> py_less p q)"
    by blast
next
  assume "\<exists>pre p post. probs = pre @ (c, p) # post
        \<and> (\<forall>(k, q) \<in> set pre. py_less q p) \<and> (\<forall>(k, q) \<in> set post. \<not> py_less p q)"
  then obtain pre p post where "probs = pre @ (c, p) # post"
    and "\<forall>(k, q) \<in> set pre. py_less q p" and "\<forall>(k, q) \<in> set post. \<not> py_less p q"
    by blast
  then show "max_class probs = Inr c" by (rule max_class_first_maximum)
qed

lemma max_class_empty: "max_class [] = Inl (ValueError EmptyMax)"
  by (simp add: max_class_def py_max_def)

lemma max_class_nonempty: "probs \<noteq> [] \<Longrightarrow> \<exists>c. max_class probs = Inr c"
  by (cases probs) (simp_all add: max_class_def py_max_def)

lemma classify_cases:
  obtains (raised) e where "classify E clf do_classify features w
        = (Inl e, w\<lparr>classified := classified w @ [features]\<rparr>)"
  | (returned) probs where "classify E clf do_classify features w
        = (Inr probs, w\<lparr>classified := classified w @ [features]\<rparr>)"
  by (cases "do_classify features"; cases "check_results (taxonomy E clf) (projr (do_classify features))")
     (auto simp: classify_def Let_def)

lemma test_step_ok:
  assumes "map_of features ''priority'' = Some pr"
    and "fst (classify E clf do_classify features w) = Inr probs"
    and "save \<longrightarrow> save_func"
  shows "fst (test_step E clf do_classify save save_func features y_pred w)
     = map_sum id (\<lambda>c. y_pred @ [enum_value E c]) (max_class probs)"
proof -
  from assms(2) obtain w1 where "classify E clf do_classify features w = (Inr probs, w1)"
    by (cases "classify E clf do_classify features w") auto
  with assms(1,3) show ?thesis
    by (cases "max_class probs") (auto simp: test_step_def dict_get_def Let_def)
qed

text \<open>
  What the harness predicts when no value of the validated mapping is NaN: the
  prediction \<open>ys = y_pred + [value of c]\<close> is recorded exactly when \<open>c\<close> is the key of
  the first item of the mapping whose probability is maximal (every earlier item has a
  strictly smaller probability and no later item a greater one). A non-empty mapping
  always yields a prediction; for the empty mapping, which passes the validation,
  \<^verbatim>\<open>max\<close> raises \<^verbatim>\<open>ValueError\<close>.
\<close>

lemma test_prediction_of_numbers:
  assumes "map_of features ''priority'' = Some pr"
    and "fst (classify E clf do_classify features w) = Inr probs"
    and "save \<longrightarrow> save_func"
    and "NaN \<notin> snd ` set probs"
  shows "(\<forall>ys. fst (test_step E clf do_classify save save_func features y_pred w) = Inr ys \<longleftrightarrow>
            (\<exists>pre c p post. probs = pre @ (c, p) # post
               \<and> (\<forall>(k, q) \<in> set pre. py_less q p) \<and> (\<forall>(k, q) \<in> set post. \<not> py_less p q)
               \<and> ys = y_pred @ [enum_value E c]))
       \<and> (probs \<noteq> [] \<longrightarrow>
            (\<exists>ys. fst (test_step E clf do_classify save save_func features y_pred w) = Inr ys))
       \<and> (probs = [] \<longrightarrow>
            fst (test_step E clf do_classify save save_func features y_pred w)
              = Inl (ValueError EmptyMax))"
proof (intro conjI allI impI)
  fix ys
  note step = test_step_ok [OF assms(1,2,3), of y_pred]
  note mx = max_class_iff [OF assms(4)]
  show "fst (test_step E clf do_classify save save_func features y_pred w) = Inr ys \<longleftrightarrow>
            (\<exists>pre c p post. probs = pre @ (c, p) # post
               \<and> (\<forall>(k, q) \<in> set pre. py_less q p) \<and> (\<forall>(k, q) \<in> set post. \<not> py_less p q)
               \<and> ys = y_pred @ [enum_value E c])"
  proof
    assume "fst (test_step E clf do_classify save save_func features y_pred w) = Inr ys"
    with step obtain c where c: "max_class probs = Inr c" and ys: "ys = y_pred @ [enum_value E c]"
      by (cases "max_class probs") auto
    from c [unfolded mx] ys show "\<exists>pre c p post. probs = pre @ (c, p) # post
               \<and> (\<forall>(k, q) \<in> set pre. py_less q p) \<and> (\<forall>(k, q) \<in> set post. \<not> py_less p q)
               \<and> ys = y_pred @ [enum_value E c]"
      by blast
  next
    assume "\<exists>pre c p post. probs = pre @ (c, p) # post
               \<and> (\<forall>(k, q) \<in> set pre. py_less q p) \<and> (\<forall>(k, q) \<in> set post. \<not> py_less p q)
               \<and> ys = y_pred @ [enum_value E c]"
    then obtain c where "max_class probs = Inr c" and "ys = y_pred @ [enum_value E c]"
      unfolding mx by blast
    with step show "fst (test_step E clf do_classify save save_func features y_pred w) = Inr ys"
      by simp
  qed
next
  assume "probs \<noteq> []"
  from max_class_nonempty [OF this] test_step_ok [OF assms(1,2,3), of y_pred]
  show "\<exists>ys. fst (test_step E clf do_classify save save_func features y_pred w) = Inr ys"
    by auto
next
  assume "probs = []"
  with test_step_ok [OF assms(1,2,3), of y_pred]
  show "fst (test_step E clf do_classify save save_func features y_pred w) = Inl (ValueError EmptyMax)"
    by (simp add: max_class_empty)
qed

text \<open>
  Claim C5. For every validated mapping the class the harness predicts is the argmax
  of the probabilities, a tie going to the class met first in the order of the mapping,
  and what is recorded is the value of that class.

  The code keeps to this for every validated mapping without NaN (the lemma above), and
  departs from it where the validation of \<^verbatim>\<open>classify\<close> lets NaN through (see claim
  C1): \<^verbatim>\<open>max\<close> replaces its candidate only on \<^verbatim>\<open>key(item) > key(candidate)\<close>, which
  is false against NaN. The mapping below passes the validation; with NaN on the first
  class the harness predicts that class, although the other class has the probability
  9/10, and with the two items in the other order it predicts the other class. So the
  prediction follows the order of the mapping, not the probabilities.
\<close>

theorem test_prediction_with_nan:
  "fst (classify example_enums (example_classifier ''rfgc'' L1 None)
          (\<lambda>f. Inr [(''SOLAR'', NaN), (''ECLIPSE'', Finite (9 / 10))])
          [(''priority'', ''17'')] empty_world)
     = Inr [(''SOLAR'', NaN), (''ECLIPSE'', Finite (9 / 10))]
   \<and> fst (test_step example_enums (example_classifier ''rfgc'' L1 None)
          (\<lambda>f. Inr [(''SOLAR'', NaN), (''ECLIPSE'', Finite (9 / 10))])
          False False [(''priority'', ''17'')] [] empty_world)
     = Inr [''solar'']
   \<and> fst (test_step example_enums (example_classifier ''rfgc'' L1 None)
          (\<lambda>f. Inr [(''ECLIPSE'', Finite (9 / 10)), (''SOLAR'', NaN)])
          False False [(''priority'', ''17'')] [] empty_world)
     = Inr [''eclipse'']"
  by (simp add: test_step_def classify_def taxonomy_def max_class_def py_max_def dict_get_def
      example_enums_def example_classifier_def)

text \<open>
  On numbers the first maximum is predicted: of two classes at 1/2, the one listed
  first.
\<close>

lemma test_prediction_tie:
  "fst (test_step example_enums (example_classifier ''rfgc'' L1 None)
          (\<lambda>f. Inr [(''SOLAR'', Finite (1 / 4)), (''ECLIPSE'', Finite (1 / 2)),
                      (''RRLYR'', Finite (1 / 2))])
          False False [(''priority'', ''17'')] [] empty_world)
     = Inr [''eclipse'']"
  by (simp add: test_step_def classify_def taxonomy_def max_class_def py_max_def dict_get_def
      example_enums_def example_classifier_def)

subsection \<open>A test fraction of zero\<close>

text \<open>
  Claim C3. With a test fraction of zero or less, \<^verbatim>\<open>test\<close> returns at once and
  without an error, whatever the classifier, the variant, the content of the training
  set and the saving options are: \<^verbatim>\<open>do_classify\<close> is not invoked (no prediction is
  made), \<^verbatim>\<open>save_func\<close> is not invoked, no figure is written and no file of the cache
  is touched. The only effect is the line of the logger. The classifier object is not
  modified by \<^verbatim>\<open>test\<close> on any path, which is why it is not part of what the model of
  \<^verbatim>\<open>test\<close> returns.
\<close>

theorem test_zero_testfraction:
  "testfraction tset \<le> 0 \<Longrightarrow>
   test E clf do_classify tset save save_func w
     = (Inr (), w\<lparr>logged := logged w @ [Info_ZeroTestfraction]\<rparr>)"
  by (simp add: test_def)

text \<open>The harness on a training set with the test fraction 0.\<close>

theorem test_zero_testfraction_witness:
  "testfraction (example_tset 0) \<le> 0
   \<and> test example_enums (example_classifier ''rfgc'' L1 None) (always_eclipse L1)
        (example_tset 0) True True empty_world
      = (Inr (), empty_world\<lparr>logged := [Info_ZeroTestfraction]\<rparr>)"
proof -
  have h: "testfraction (example_tset 0) \<le> 0" by (simp add: example_tset_def)
  from test_zero_testfraction [OF h, of example_enums "example_classifier ''rfgc'' L1 None"
      "always_eclipse L1" True True empty_world] h
  show ?thesis by (simp add: empty_world_def)
qed

subsection \<open>The records handed to \<^verbatim>\<open>save_func\<close>\<close>

lemma classify_fst_indep:
  "fst (classify E clf do_classify features w) = fst (classify E clf do_classify features w')"
  by (simp add: classify_def Let_def split: sum.splits)

lemma classify_saved: "saved (snd (classify E clf do_classify features w)) = saved w"
  by (simp add: classify_def Let_def split: sum.splits)

lemma test_step_saved:
  assumes "test_step E clf do_classify save save_func features y_pred w = (r, w')"
  shows "saved w' = saved w
     \<or> (save \<and> save_func \<and> (\<exists>p probs. map_of features ''priority'' = Some p
           \<and> fst (classify E clf do_classify features w) = Inr probs
           \<and> saved w' = saved w @
               [[(''priority'', Val p), (''classifier'', Name (classifier_key clf)),
                 (''status'', Status OK), (''starclass_results'', Probabilities probs)]]))"
proof (cases "map_of features ''priority''")
  case None
  with assms show ?thesis by (simp add: test_step_def dict_get_def)
next
  case (Some p)
  obtain cr w1 where c: "classify E clf do_classify features w = (cr, w1)"
    by (cases "classify E clf do_classify features w")
  from classify_saved [of E clf do_classify features w] c have s1: "saved w1 = saved w" by simp
  show ?thesis
  proof (cases cr)
    case (Inl e)
    with assms Some c s1 show ?thesis by (simp add: test_step_def dict_get_def)
  next
    case (Inr probs)
    show ?thesis
    proof (cases "max_class probs")
      case Inl': (Inl e)
      with assms Some c s1 Inr show ?thesis by (simp add: test_step_def dict_get_def)
    next
      case Inr': (Inr cl)
      with assms Some c s1 Inr show ?thesis
        by (auto simp: test_step_def dict_get_def Let_def split: if_splits)
    qed
  qed
qed

lemma test_loop_saved:
  "test_loop E clf do_classify save save_func fls y_pred w = (r, w') \<Longrightarrow>
   \<exists>recs. saved w' = saved w @ recs
     \<and> (\<not> (save \<and> save_func) \<longrightarrow> recs = [])
     \<and> (\<forall>rec \<in> set recs. \<exists>features \<in> fst ` set fls. \<exists>p probs.
           map_of features ''priority'' = Some p
           \<and> fst (classify E clf do_classify features w0) = Inr probs
           \<and> rec = [(''priority'', Val p), (''classifier'', Name (classifier_key clf)),
                    (''status'', Status OK), (''starclass_results'', Probabilities probs)])"
proof (induction fls arbitrary: y_pred w)
  case Nil
  then show ?case by simp
next
  case (Cons fl fls)
  obtain sr w1 where st: "test_step E clf do_classify save save_func (fst fl) y_pred w = (sr, w1)"
    by (cases "test_step E clf do_classify save save_func (fst fl) y_pred w")
  from test_step_saved [OF st] classify_fst_indep [of E clf do_classify "fst fl" w w0]
  obtain recs1 where r1: "saved w1 = saved w @ recs1"
     "\<not> (save \<and> save_func) \<longrightarrow> recs1 = []"
     "\<forall>rec \<in> set recs1. \<exists>p probs.
           map_of (fst fl) ''priority'' = Some p
           \<and> fst (classify E clf do_classify (fst fl) w0) = Inr probs
           \<and> rec = [(''priority'', Val p), (''classifier'', Name (classifier_key clf)),
                    (''status'', Status OK), (''starclass_results'', Probabilities probs)]"
    by (elim disjE conjE exE) (simp, force)
  show ?case
  proof (cases sr)
    case (Inl e)
    with Cons.prems st have "w' = w1" by simp
    with r1 show ?thesis by (intro exI [of _ recs1]) auto
  next
    case (Inr ys)
    with Cons.prems st have "test_loop E clf do_classify save save_func fls ys w1 = (r, w')"
      by simp
    from Cons.IH [OF this] obtain recs2 where r2: "saved w' = saved w1 @ recs2"
     "\<not> (save \<and> save_func) \<longrightarrow> recs2 = []"
     "\<forall>rec \<in> set recs2. \<exists>features \<in> fst ` set fls. \<exists>p probs.
           map_of features ''priority'' = Some p
           \<and> fst (classify E clf do_classify features w0) = Inr probs
           \<and> rec = [(''priority'', Val p), (''classifier'', Name (classifier_key clf)),
                    (''status'', Status OK), (''starclass_results'', Probabilities probs)]"
      by blast
    from r1 r2 show ?thesis
      by (intro exI [of _ "recs1 @ recs2"]) (auto 4 4)
  qed
qed

lemma test_saved_after_loop:
  assumes "test_loop E clf do_classify save save_func
             (zip (features_test tset) (labels_test tset (level clf))) [] w = (lr, w1)"
  shows "saved (snd (test E clf do_classify tset save save_func w))
           = (if testfraction tset \<le> 0 then saved w else saved w1)"
  using assms
  by (simp add: test_def Let_def split: sum.splits)

text \<open>
  Claim C6, as amended. Every record that \<^verbatim>\<open>test\<close> hands to \<^verbatim>\<open>save_func\<close>, on a
  run that ends normally or with an error, has exactly the four fields
  \<^verbatim>\<open>priority\<close>, \<^verbatim>\<open>classifier\<close>, \<^verbatim>\<open>status\<close> and \<^verbatim>\<open>starclass_results\<close>, in this
  order: the priority is the one found in a feature bundle of the test set, the field
  \<^verbatim>\<open>classifier\<close> holds the classifier's short identifier \<^verbatim>\<open>classifier_key\<close>, the
  status is \<^verbatim>\<open>STATUS.OK\<close>, and the results are the validated mapping that
  \<^verbatim>\<open>classify\<close> returns for that bundle. Nothing is handed over unless saving is
  switched on and a callable is given.
\<close>

theorem test_saved_records:
  "\<exists>recs. saved (snd (test E clf do_classify tset save save_func w)) = saved w @ recs
     \<and> (\<not> (save \<and> save_func) \<longrightarrow> recs = [])
     \<and> (\<forall>rec \<in> set recs. \<exists>features \<in> set (features_test tset). \<exists>p probs.
           map_of features ''priority'' = Some p
           \<and> fst (classify E clf do_classify features w) = Inr probs
           \<and> rec = [(''priority'', Val p), (''classifier'', Name (classifier_key clf)),
                    (''status'', Status OK), (''starclass_results'', Probabilities probs)])"
proof (cases "testfraction tset \<le> 0")
  case True
  then show ?thesis by (intro exI [of _ "[]"]) (simp add: test_def)
next
  case False
  obtain lr w1 where loop: "test_loop E clf do_classify save save_func
             (zip (features_test tset) (labels_test tset (level clf))) [] w = (lr, w1)"
    by (cases "test_loop E clf do_classify save save_func
             (zip (features_test tset) (labels_test tset (level clf))) [] w")
  from test_loop_saved [OF loop, of w] obtain recs where recs: "saved w1 = saved w @ recs"
     "\<not> (save \<and> save_func) \<longrightarrow> recs = []"
     "\<forall>rec \<in> set recs. \<exists>features \<in> fst ` set (zip (features_test tset) (labels_test tset (level clf))).
         \<exists>p probs. map_of features ''priority'' = Some p
           \<and> fst (classify E clf do_classify features w) = Inr probs
           \<and> rec = [(''priority'', Val p), (''classifier'', Name (classifier_key clf)),
                    (''status'', Status OK), (''starclass_results'', Probabilities probs)]"
    by blast
  have sub: "fst ` set (zip (features_test tset) (labels_test tset (level clf)))
      \<subseteq> set (features_test tset)"
    by (auto dest: set_zip_leftD)
  have "\<forall>rec \<in> set recs. \<exists>features \<in> set (features_test tset). \<exists>p probs.
           map_of features ''priority'' = Some p
           \<and> fst (classify E clf do_classify features w) = Inr probs
           \<and> rec = [(''priority'', Val p), (''classifier'', Name (classifier_key clf)),
                    (''status'', Status OK), (''starclass_results'', Probabilities probs)]"
  proof
    fix rec assume "rec \<in> set recs"
    with recs(3) obtain features p probs where
      "features \<in> fst ` set (zip (features_test tset) (labels_test tset (level clf)))"
      "map_of features ''priority'' = Some p
           \<and> fst (classify E clf do_classify features w) = Inr probs
           \<and> rec = [(''priority'', Val p), (''classifier'', Name (classifier_key clf)),
                    (''status'', Status OK), (''starclass_results'', Probabilities probs)]"
      by blast
    with sub show "\<exists>features \<in> set (features_test tset). \<exists>p probs.
           map_of features ''priority'' = Some p
           \<and> fst (classify E clf do_classify features w) = Inr probs
           \<and> rec = [(''priority'', Val p), (''classifier'', Name (classifier_key clf)),
                    (''status'', Status OK), (''starclass_results'', Probabilities probs)]"
      by blast
  qed
  with recs(1,2) False test_saved_after_loop [OF loop] show ?thesis
    by (intro exI [of _ recs]) simp
qed

lemmas example_defs =
  example_enums_def example_classifier_def example_tset_def always_eclipse_def empty_world_def

lemmas harness_defs =
  test_def test_step_def classify_def taxonomy_def max_class_def py_max_def dict_get_def
  first_def accuracy_score_def confusion_matrix_def confusion_matrix_file_def os_path_join_def
  level_name_def Let_def

lemma example_run_saved:
  "saved (snd (test example_enums (example_classifier ''rfgc'' L1 None) (always_eclipse L1)
       (example_tset 1) True True empty_world))
   = [[(''priority'', Val ''17''), (''classifier'', Name ''rfgc''), (''status'', Status OK),
       (''starclass_results'', Probabilities [(''SOLAR'', Finite 0), (''ECLIPSE'', Finite 1), (''RRLYR'', Finite 0)])],
      [(''priority'', Val ''18''), (''classifier'', Name ''rfgc''), (''status'', Status OK),
       (''starclass_results'', Probabilities [(''SOLAR'', Finite 0), (''ECLIPSE'', Finite 1), (''RRLYR'', Finite 0)])],
      [(''priority'', Val ''19''), (''classifier'', Name ''rfgc''), (''status'', Status OK),
       (''starclass_results'', Probabilities [(''SOLAR'', Finite 0), (''ECLIPSE'', Finite 1), (''RRLYR'', Finite 0)])]]"
  by (simp add: example_defs harness_defs)

text \<open>
  Claim C6 as the spec states it names the second field \<^verbatim>\<open>classifier_key\<close>. On the
  example run with saving switched on, each of the three records has the fields
  \<^verbatim>\<open>priority\<close>, \<^verbatim>\<open>classifier\<close>, \<^verbatim>\<open>status\<close>, \<^verbatim>\<open>starclass_results\<close>: none has a
  field \<^verbatim>\<open>classifier_key\<close>.
\<close>

theorem test_saved_records_counterexample:
  "map (map fst)
     (saved (snd (test example_enums (example_classifier ''rfgc'' L1 None) (always_eclipse L1)
        (example_tset 1) True True empty_world)))
     = [[''priority'', ''classifier'', ''status'', ''starclass_results''],
        [''priority'', ''classifier'', ''status'', ''starclass_results''],
        [''priority'', ''classifier'', ''status'', ''starclass_results'']]
   \<and> \<not> (\<forall>rec \<in> set (saved (snd (test example_enums (example_classifier ''rfgc'' L1 None)
               (always_eclipse L1) (example_tset 1) True True empty_world))).
          ''classifier_key'' \<in> fst ` set rec)"
  by (simp add: example_run_saved)

text \<open>The amended statement on the same run, where three records are handed over.\<close>

theorem test_saved_records_witness:
  "saved (snd (test example_enums (example_classifier ''rfgc'' L1 None) (always_eclipse L1)
       (example_tset 1) True True empty_world)) \<noteq> []
   \<and> (\<exists>recs. saved (snd (test example_enums (example_classifier ''rfgc'' L1 None)
                   (always_eclipse L1) (example_tset 1) True True empty_world))
               = saved empty_world @ recs
          \<and> (\<forall>rec \<in> set recs. \<exists>features \<in> set (features_test (example_tset 1)). \<exists>p probs.
                map_of features ''priority'' = Some p
                \<and> fst (classify example_enums (example_classifier ''rfgc'' L1 None)
                         (always_eclipse L1) features empty_world) = Inr probs
                \<and> rec = [(''priority'', Val p),
                         (''classifier'', Name (classifier_key (example_classifier ''rfgc'' L1 None))),
                         (''status'', Status OK), (''starclass_results'', Probabilities probs)]))"
proof -
  have ne: "saved (snd (test example_enums (example_classifier ''rfgc'' L1 None) (always_eclipse L1)
       (example_tset 1) True True empty_world)) \<noteq> []"
    by (simp add: example_run_saved)
  from test_saved_records [of example_enums "example_classifier ''rfgc'' L1 None"
      "always_eclipse L1" "example_tset 1" True True empty_world]
  have "\<exists>recs. saved (snd (test example_enums (example_classifier ''rfgc'' L1 None)
                   (always_eclipse L1) (example_tset 1) True True empty_world))
               = saved empty_world @ recs
          \<and> (\<forall>rec \<in> set recs. \<exists>features \<in> set (features_test (example_tset 1)). \<exists>p probs.
                map_of features ''priority'' = Some p
                \<and> fst (classify example_enums (example_classifier ''rfgc'' L1 None)
                         (always_eclipse L1) features empty_world) = Inr probs
                \<and> rec = [(''priority'', Val p),
                         (''classifier'', Name (classifier_key (example_classifier ''rfgc'' L1 None))),
                         (''status'', Status OK), (''starclass_results'', Probabilities probs)])"
    by (elim exE conjE) (rule exI, rule conjI, assumption+)
  with ne show ?thesis by (rule conjI)
qed

subsection \<open>Accuracy and confusion matrix\<close>

lemma test_step_prediction:
  assumes "test_step E clf do_classify save save_func features y_pred w = (Inr ys, w')"
  shows "\<exists>probs c. fst (classify E clf do_classify features w) = Inr probs
            \<and> max_class probs = Inr c \<and> ys = y_pred @ [enum_value E c]"
proof (cases "map_of features ''priority''")
  case None
  with assms show ?thesis by (simp add: test_step_def dict_get_def)
next
  case (Some p)
  obtain cr w1 where c: "classify E clf do_classify features w = (cr, w1)"
    by (cases "classify E clf do_classify features w")
  show ?thesis
  proof (cases cr)
    case (Inl e)
    with assms Some c show ?thesis by (simp add: test_step_def dict_get_def)
  next
    case (Inr probs)
    show ?thesis
    proof (cases "max_class probs")
      case Inl': (Inl e)
      with assms Some c Inr show ?thesis by (simp add: test_step_def dict_get_def)
    next
      case Inr': (Inr cl)
      with assms Some c Inr show ?thesis
        by (auto simp: test_step_def dict_get_def Let_def split: if_splits)
    qed
  qed
qed

lemma test_loop_predictions:
  "test_loop E clf do_classify save save_func fls acc w = (Inr ys, w') \<Longrightarrow>
   \<exists>preds. ys = acc @ preds \<and> length preds = length fls
     \<and> (\<forall>i < length fls. \<exists>probs c.
           fst (classify E clf do_classify (fst (fls ! i)) w0) = Inr probs
           \<and> max_class probs = Inr c \<and> preds ! i = enum_value E c)"
proof (induction fls arbitrary: acc w)
  case Nil
  then show ?case by simp
next
  case (Cons fl fls)
  obtain sr w1 where st: "test_step E clf do_classify save save_func (fst fl) acc w = (sr, w1)"
    by (cases "test_step E clf do_classify save save_func (fst fl) acc w")
  with Cons.prems obtain ys1 where sr: "sr = Inr ys1"
    and rest: "test_loop E clf do_classify save save_func fls ys1 w1 = (Inr ys, w')"
    by (cases sr) auto
  from test_step_prediction [OF st [unfolded sr]] classify_fst_indep [of E clf do_classify "fst fl" w w0]
  obtain probs c where pc: "fst (classify E clf do_classify (fst fl) w0) = Inr probs"
    "max_class probs = Inr c" "ys1 = acc @ [enum_value E c]"
    by auto
  from Cons.IH [OF rest] obtain preds where preds: "ys = ys1 @ preds" "length preds = length fls"
    "\<forall>i < length fls. \<exists>probs c.
           fst (classify E clf do_classify (fst (fls ! i)) w0) = Inr probs
           \<and> max_class probs = Inr c \<and> preds ! i = enum_value E c"
    by blast
  have "\<forall>i < length (fl # fls). \<exists>probs c'.
           fst (classify E clf do_classify (fst ((fl # fls) ! i)) w0) = Inr probs
           \<and> max_class probs = Inr c' \<and> (enum_value E c # preds) ! i = enum_value E c'"
  proof (intro allI impI)
    fix i assume "i < length (fl # fls)"
    then show "\<exists>probs c'.
           fst (classify E clf do_classify (fst ((fl # fls) ! i)) w0) = Inr probs
           \<and> max_class probs = Inr c' \<and> (enum_value E c # preds) ! i = enum_value E c'"
      using pc(1,2) preds(3) by (cases i) auto
  qed
  with pc(3) preds(1,2) show ?case
    by (intro exI [of _ "enum_value E c # preds"]) simp
qed

lemma first_values_iff:
  "first_values E labels = Inr vs \<longleftrightarrow>
     [] \<notin> set labels \<and> vs = map (\<lambda>lbl. enum_value E (hd lbl)) labels"
proof (induction labels arbitrary: vs)
  case Nil
  show ?case by auto
next
  case (Cons lbl labels)
  show ?case
  proof (cases lbl)
    case Nil
    then show ?thesis by (simp add: first_def)
  next
    case (Cons l ls)
    show ?thesis
    proof (cases "first_values E labels")
      case (Inl e)
      with Cons.IH have "[] \<in> set labels" by auto
      with Inl Cons show ?thesis by (simp add: first_def)
    next
      case (Inr vs')
      with Cons.IH [of vs'] have "[] \<notin> set labels" "vs' = map (\<lambda>lbl. enum_value E (hd lbl)) labels"
        by auto
      with Inr Cons show ?thesis by (auto simp: first_def)
    qed
  qed
qed

lemma count_zip:
  "length xs = length ys \<Longrightarrow>
   length (filter P (zip xs ys)) = card {i. i < length xs \<and> P (xs ! i, ys ! i)}"
proof -
  assume l: "length xs = length ys"
  have "{i. i < length (zip xs ys) \<and> P (zip xs ys ! i)} = {i. i < length xs \<and> P (xs ! i, ys ! i)}"
    using l by auto
  then show ?thesis by (simp add: length_filter_conv_card)
qed

lemma accuracy_score_Inr:
  assumes "accuracy_score y_true y_pred = Inr acc"
  shows "length y_pred = length y_true
     \<and> acc = (if y_true = [] then None
             else Some (real (card {i. i < length y_true \<and> y_pred ! i = y_true ! i})
                          / real (length y_true)))"
proof -
  from assms have l: "length y_true = length y_pred"
    by (simp add: accuracy_score_def split: if_splits)
  have "{i. i < length y_true \<and> (case (y_true ! i, y_pred ! i) of (t, p) \<Rightarrow> t = p)}
      = {i. i < length y_true \<and> y_pred ! i = y_true ! i}"
    by auto
  with assms l count_zip [OF l, of "\<lambda>(t, p). t = p"] show ?thesis
    by (auto simp: accuracy_score_def split: if_splits)
qed

lemma confusion_matrix_Inr:
  assumes "confusion_matrix y_true y_pred labels = Inr cf"
  shows "cf = map (\<lambda>t. map (\<lambda>p.
             card {i. i < length y_true \<and> y_true ! i = t \<and> y_pred ! i = p}) labels) labels"
proof -
  from assms have l: "length y_true = length y_pred"
    by (simp add: confusion_matrix_def split: if_splits)
  have "\<And>t p. length (filter (\<lambda>(a, b). a = t \<and> b = p) (zip y_true y_pred))
      = card {i. i < length y_true \<and> y_true ! i = t \<and> y_pred ! i = p}"
    using count_zip [OF l, of "\<lambda>(a, b). a = _ \<and> b = _"] by simp
  with assms show ?thesis
    by (simp add: confusion_matrix_def split: if_splits)
qed

text \<open>
  Claim C4. Take a run of \<^verbatim>\<open>test\<close>, at either level, with a positive test fraction
  that returns normally. Then the loop has produced one prediction per entry of the
  ground truth (each the value of the class that \<^verbatim>\<open>max\<close> selects from the validated
  mapping of the corresponding bundle), every entry of the ground truth has a first
  label, and
  \<^item> the accuracy that is logged (times 100) is the number of stars whose prediction
    equals the value of the first label of their ground truth, divided by the number of
    stars (for no star at all the quotient is undefined, NaN in Python);
  \<^item> the figure written under the name built from the training set's key, the level and
    the classifier's identifier shows the confusion matrix whose rows and columns are
    the values of all members of \<^verbatim>\<open>StellarClasses\<close>, the enumeration of level 1, also
    when the classifier runs at level 2; the entry for a true value \<open>t\<close> and a
    predicted value \<open>p\<close> counts the stars with that first label and that prediction.
\<close>

theorem test_accuracy_and_confusion_matrix:
  assumes "0 < testfraction tset"
    and "test E clf do_classify tset save save_func w = (Inr (), w')"
  shows "\<exists>y_pred w1.
      test_loop E clf do_classify save save_func
          (zip (features_test tset) (labels_test tset (level clf))) [] w = (Inr y_pred, w1)
    \<and> length y_pred = length (labels_test tset (level clf))
    \<and> length y_pred \<le> length (features_test tset)
    \<and> [] \<notin> set (labels_test tset (level clf))
    \<and> (\<forall>i < length y_pred. \<exists>probs c.
          fst (classify E clf do_classify (features_test tset ! i) w) = Inr probs
          \<and> max_class probs = Inr c \<and> y_pred ! i = enum_value E c)
    \<and> logged w' = logged w1 @
        [Info_Accuracy
          (if labels_test tset (level clf) = [] then None
           else Some (real (card {i. i < length (labels_test tset (level clf))
                               \<and> y_pred ! i = enum_value E (hd (labels_test tset (level clf) ! i))})
                        / real (length (labels_test tset (level clf))) * 100))]
    \<and> map_of (figures w') (confusion_matrix_file clf tset) =
        Some \<lparr> matrix =
                 map (\<lambda>t. map (\<lambda>p.
                     card {i. i < length (labels_test tset (level clf))
                            \<and> enum_value E (hd (labels_test tset (level clf) ! i)) = t
                            \<and> y_pred ! i = p})
                   (map (enum_value E) (StellarClasses E)))
                   (map (enum_value E) (StellarClasses E)),
               tick_labels = map (enum_value E) (StellarClasses E),
               title = classifier_key clf @ '' - '' @ key tset @ '' - '' @ level_name (level clf) \<rparr>"
proof -
  let ?labels = "labels_test tset (level clf)"
  let ?fls = "zip (features_test tset) ?labels"
  let ?all = "map (enum_value E) (StellarClasses E)"
  obtain lr w1 where loop: "test_loop E clf do_classify save save_func ?fls [] w = (lr, w1)"
    by (cases "test_loop E clf do_classify save save_func ?fls [] w")
  from assms loop obtain y_pred where lr: "lr = Inr y_pred"
    by (cases lr) (auto simp: test_def Let_def)
  from assms loop lr obtain y_true where fv: "first_values E ?labels = Inr y_true"
    by (cases "first_values E ?labels") (auto simp: test_def Let_def)
  from assms loop lr fv obtain acc where acc: "accuracy_score y_true y_pred = (Inr acc :: 'a error + _)"
    by (cases "accuracy_score y_true y_pred :: 'a error + _") (auto simp: test_def Let_def)
  from assms loop lr fv acc obtain cf where cf: "confusion_matrix y_true y_pred ?all = (Inr cf :: 'a error + _)"
    by (cases "confusion_matrix y_true y_pred ?all :: 'a error + _") (auto simp: test_def Let_def)
  from assms loop lr fv acc cf have w': "w' = w1\<lparr>logged := logged w1 @ [Info_Accuracy (map_option (\<lambda>a. a * 100) acc)],
       figures := AList.update (confusion_matrix_file clf tset)
          \<lparr> matrix = cf, tick_labels = ?all,
            title = classifier_key clf @ '' - '' @ key tset @ '' - '' @ level_name (level clf) \<rparr>
          (figures w1)\<rparr>"
    by (simp add: test_def Let_def)
  from fv have ne: "[] \<notin> set ?labels" and y_true: "y_true = map (\<lambda>lbl. enum_value E (hd lbl)) ?labels"
    by (simp_all add: first_values_iff)
  from accuracy_score_Inr [OF acc] have len: "length y_pred = length y_true"
    and accv: "acc = (if y_true = [] then None
             else Some (real (card {i. i < length y_true \<and> y_pred ! i = y_true ! i})
                          / real (length y_true)))"
    by simp_all
  from test_loop_predictions [OF loop [unfolded lr], of w] obtain preds where
    preds: "y_pred = preds" "length preds = length ?fls"
    "\<forall>i < length ?fls. \<exists>probs c.
           fst (classify E clf do_classify (fst (?fls ! i)) w) = Inr probs
           \<and> max_class probs = Inr c \<and> preds ! i = enum_value E c"
    by auto
  from preds(1,2) have len2: "length y_pred \<le> length (features_test tset)" by simp
  have pr: "\<forall>i < length y_pred. \<exists>probs c.
          fst (classify E clf do_classify (features_test tset ! i) w) = Inr probs
          \<and> max_class probs = Inr c \<and> y_pred ! i = enum_value E c"
    using preds by auto
  have set1: "{i. i < length y_true \<and> y_pred ! i = y_true ! i}
      = {i. i < length ?labels \<and> y_pred ! i = enum_value E (hd (?labels ! i))}"
    unfolding y_true by auto
  have set2: "\<And>t p. {i. i < length y_true \<and> y_true ! i = t \<and> y_pred ! i = p}
      = {i. i < length ?labels \<and> enum_value E (hd (?labels ! i)) = t \<and> y_pred ! i = p}"
    unfolding y_true by auto
  have lg: "logged w' = logged w1 @
        [Info_Accuracy
          (if ?labels = [] then None
           else Some (real (card {i. i < length ?labels
                               \<and> y_pred ! i = enum_value E (hd (?labels ! i))})
                        / real (length ?labels) * 100))]"
    unfolding w' accv set1 by (simp add: y_true)
  have fg: "map_of (figures w') (confusion_matrix_file clf tset) =
        Some \<lparr> matrix =
                 map (\<lambda>t. map (\<lambda>p.
                     card {i. i < length ?labels
                            \<and> enum_value E (hd (?labels ! i)) = t
                            \<and> y_pred ! i = p}) ?all) ?all,
               tick_labels = ?all,
               title = classifier_key clf @ '' - '' @ key tset @ '' - '' @ level_name (level clf) \<rparr>"
    unfolding w' confusion_matrix_Inr [OF cf] set2 by (simp add: update_conv')
  from loop lr len y_true len2 ne pr lg fg show ?thesis
    by (intro exI [of _ y_pred] exI [of _ w1]) simp
qed

text \<open>
  The two example runs, evaluated: ground truth eclipse, solar, eclipse against the
  variant that always predicts eclipse gives the accuracy 2/3 and the count 2 on the
  diagonal for eclipse, at level 1 and at level 2, each time over the values of level 1.
\<close>

lemma example_run_L1:
  "test example_enums (example_classifier ''rfgc'' L1 None) (always_eclipse L1)
       (example_tset 1) False False empty_world
   = (Inr (),
      empty_world
       \<lparr> logged := [Info_Accuracy (Some (200 / 3))],
         classified := [[(''priority'', ''17'')], [(''priority'', ''18'')], [(''priority'', ''19'')]],
         figures := [(''/data/confusion_matrix_ts_L1_rfgc.png'',
           \<lparr> matrix = [[0, 1, 0, 0, 0, 0, 0], [0, 2, 0, 0, 0, 0, 0], [0, 0, 0, 0, 0, 0, 0],
                        [0, 0, 0, 0, 0, 0, 0], [0, 0, 0, 0, 0, 0, 0], [0, 0, 0, 0, 0, 0, 0],
                        [0, 0, 0, 0, 0, 0, 0]],
             tick_labels = [''solar'', ''eclipse'', ''rrlyr'', ''gdor'', ''dsct'', ''contact'',
                            ''constant''],
             title = ''rfgc - ts - L1'' \<rparr>)] \<rparr>)"
  by (simp add: example_defs harness_defs)

lemma example_run_L2:
  "test example_enums (example_classifier ''rfgc'' L2 None) (always_eclipse L2)
       (example_tset 1) False False empty_world
   = (Inr (),
      empty_world
       \<lparr> logged := [Info_Accuracy (Some (200 / 3))],
         classified := [[(''priority'', ''17'')], [(''priority'', ''18'')], [(''priority'', ''19'')]],
         figures := [(''/data/confusion_matrix_ts_L2_rfgc.png'',
           \<lparr> matrix = [[0, 1, 0, 0, 0, 0, 0], [0, 2, 0, 0, 0, 0, 0], [0, 0, 0, 0, 0, 0, 0],
                        [0, 0, 0, 0, 0, 0, 0], [0, 0, 0, 0, 0, 0, 0], [0, 0, 0, 0, 0, 0, 0],
                        [0, 0, 0, 0, 0, 0, 0]],
             tick_labels = [''solar'', ''eclipse'', ''rrlyr'', ''gdor'', ''dsct'', ''contact'',
                            ''constant''],
             title = ''rfgc - ts - L2'' \<rparr>)] \<rparr>)"
  by (simp add: example_defs harness_defs)

text \<open>
  The statement on the run at level 2, whose hypotheses hold: three predictions, the
  accuracy 2/3 logged as 200/3 percent, and the labels of the figure are the values of
  the enumeration of level 1.
\<close>

theorem test_accuracy_and_confusion_matrix_witness:
  "0 < testfraction (example_tset 1)
   \<and> fst (test example_enums (example_classifier ''rfgc'' L2 None) (always_eclipse L2)
            (example_tset 1) False False empty_world) = Inr ()
   \<and> (\<exists>y_pred w1.
        test_loop example_enums (example_classifier ''rfgc'' L2 None) (always_eclipse L2) False False
          (zip (features_test (example_tset 1)) (labels_test (example_tset 1) L2)) []
          empty_world = (Inr y_pred, w1)
        \<and> length y_pred = 3
        \<and> logged (snd (test example_enums (example_classifier ''rfgc'' L2 None) (always_eclipse L2)
            (example_tset 1) False False empty_world)) = logged w1 @ [Info_Accuracy (Some (200 / 3))])
   \<and> map_option tick_labels
        (map_of (figures (snd (test example_enums (example_classifier ''rfgc'' L2 None)
            (always_eclipse L2) (example_tset 1) False False empty_world)))
          (confusion_matrix_file (example_classifier ''rfgc'' L2 None) (example_tset 1)))
      = Some (map (enum_value example_enums) (StellarClasses example_enums))"
proof -
  let ?clf = "example_classifier ''rfgc'' L2 None"
  let ?t = "test example_enums ?clf (always_eclipse L2) (example_tset 1) False False empty_world"
  have h1: "0 < testfraction (example_tset 1)" by (simp add: example_tset_def)
  have h2: "?t = (Inr (), snd ?t)" by (simp add: example_run_L2)
  have lv: "level ?clf = L2" by (simp add: example_classifier_def)
  have lb: "length (labels_test (example_tset 1) L2) = 3" by (simp add: example_tset_def)
  from test_accuracy_and_confusion_matrix [OF h1 h2] obtain y_pred w1 where
    loop: "test_loop example_enums ?clf (always_eclipse L2) False False
          (zip (features_test (example_tset 1)) (labels_test (example_tset 1) (level ?clf))) []
          empty_world = (Inr y_pred, w1)"
    and len: "length y_pred = length (labels_test (example_tset 1) (level ?clf))"
    and fig: "map_of (figures (snd ?t)) (confusion_matrix_file ?clf (example_tset 1)) =
        Some \<lparr> matrix =
                 map (\<lambda>t. map (\<lambda>p.
                     card {i. i < length (labels_test (example_tset 1) (level ?clf))
                            \<and> enum_value example_enums (hd (labels_test (example_tset 1) (level ?clf) ! i)) = t
                            \<and> y_pred ! i = p})
                   (map (enum_value example_enums) (StellarClasses example_enums)))
                   (map (enum_value example_enums) (StellarClasses example_enums)),
               tick_labels = map (enum_value example_enums) (StellarClasses example_enums),
               title = classifier_key ?clf @ '' - '' @ key (example_tset 1) @ '' - ''
                 @ level_name (level ?clf) \<rparr>"
    by blast
  have w1: "logged w1 = []"
    using loop unfolding lv by (auto simp: example_defs harness_defs)
  have lg: "logged (snd ?t) = logged w1 @ [Info_Accuracy (Some (200 / 3))]"
    unfolding w1 example_run_L2 by (simp add: empty_world_def)
  have "\<exists>y_pred w1.
        test_loop example_enums ?clf (always_eclipse L2) False False
          (zip (features_test (example_tset 1)) (labels_test (example_tset 1) L2)) []
          empty_world = (Inr y_pred, w1)
        \<and> length y_pred = 3
        \<and> logged (snd ?t) = logged w1 @ [Info_Accuracy (Some (200 / 3))]"
    using loop len lg unfolding lv lb by blast
  moreover from fig have "map_option tick_labels
        (map_of (figures (snd ?t)) (confusion_matrix_file ?clf (example_tset 1)))
      = Some (map (enum_value example_enums) (StellarClasses example_enums))"
    by simp
  moreover from h2 have "fst ?t = Inr ()" by (metis fst_conv)
  ultimately show ?thesis using h1 by (intro conjI)
qed

section \<open>Properties of the feature loader\<close>

subsection \<open>Auxiliary facts\<close>

lemma endswith_iff: "endswith s sfx \<longleftrightarrow> (\<exists>p. s = p @ sfx)"
proof
  assume "endswith s sfx"
  then have "s = take (length s - length sfx) s @ sfx"
    by (metis append_take_drop_id endswith_def)
  then show "\<exists>p. s = p @ sfx" ..
next
  assume "\<exists>p. s = p @ sfx"
  then show "endswith s sfx" by (auto simp: endswith_def)
qed

lemma load_lightcurve_world:
  "load_lightcurve C task fname w = (r, w1) \<Longrightarrow>
   w1 = w \<or> w1 = w\<lparr>opened := opened w @ [fname]\<rparr>"
  by (auto simp: load_lightcurve_def Let_def split: if_splits sum.splits)

lemma load_lightcurve_Inr:
  "load_lightcurve C task fname w = (Inr lc, w1) \<Longrightarrow> w1 = w\<lparr>opened := opened w @ [fname]\<rparr>"
  by (auto simp: load_lightcurve_def Let_def split: if_splits sum.splits)

lemma calc_features_world:
  "snd (calc_features C lc w) = w\<lparr>computed := computed w @ [lc]\<rparr>"
  by (simp add: calc_features_def Let_def split: sum.splits)

lemma fold_task_keys:
  "map_of (fold (\<lambda>k f. case map_of task k of Some v \<Rightarrow> AList.update k v f | None \<Rightarrow> f) ks features)
     = map_of features ++ (map_of task |` set ks)"
proof (induction ks arbitrary: features)
  case Nil
  show ?case by simp
next
  case (Cons k ks)
  show ?case
  proof (cases "map_of task k")
    case None
    then have "map_of task |` set (k # ks) = map_of task |` set ks"
      by (auto simp: restrict_map_def fun_eq_iff)
    with None Cons.IH [of features] show ?thesis by simp
  next
    case (Some v)
    have "map_of (AList.update k v features) ++ (map_of task |` set ks)
        = map_of features ++ (map_of task |` set (k # ks))"
      using Some by (auto simp: update_conv' map_add_def restrict_map_def fun_eq_iff split: option.splits)
    with Some Cons.IH [of "AList.update k v features"] show ?thesis by simp
  qed
qed

lemma fold_task_keys_distinct:
  "distinct (map fst features) \<Longrightarrow>
   distinct (map fst (fold (\<lambda>k f. case map_of task k of Some v \<Rightarrow> AList.update k v f | None \<Rightarrow> f) ks features))"
  by (induction ks arbitrary: features) (auto simp: distinct_update split: option.splits)

lemma add_task_fields_ok:
  assumes "map_of task ''priority'' = Some p" and "map_of task ''starid'' = Some s"
  shows "\<exists>attached. add_task_fields task features = Inr attached
     \<and> map_of attached = map_of features
          ++ (map_of task |` {''priority'', ''starid'', ''tmag'', ''variance'', ''rms_hour'', ''ptp'',
                               ''other_classifiers''})
     \<and> (distinct (map fst features) \<longrightarrow> distinct (map fst attached))
     \<and> attached \<noteq> []"
proof -
  let ?ks = "[''tmag'', ''variance'', ''rms_hour'', ''ptp'', ''other_classifiers'']"
  let ?f2 = "AList.update ''starid'' s (AList.update ''priority'' p features)"
  let ?b = "fold (\<lambda>k f. case map_of task k of Some v \<Rightarrow> AList.update k v f | None \<Rightarrow> f) ?ks ?f2"
  from assms have r: "add_task_fields task features = Inr ?b"
    by (simp add: add_task_fields_def dict_get_def Let_def)
  have m: "map_of ?b = map_of ?f2 ++ (map_of task |` set ?ks)"
    by (rule fold_task_keys)
  have "map_of ?f2 ++ (map_of task |` set ?ks) = map_of features
          ++ (map_of task |` {''priority'', ''starid'', ''tmag'', ''variance'', ''rms_hour'', ''ptp'',
                               ''other_classifiers''})"
    using assms
    by (auto simp: update_conv' map_add_def restrict_map_def fun_eq_iff split: option.splits)
  with m have m': "map_of ?b = map_of features
          ++ (map_of task |` {''priority'', ''starid'', ''tmag'', ''variance'', ''rms_hour'', ''ptp'',
                               ''other_classifiers''})"
    by simp
  have d: "distinct (map fst features) \<longrightarrow> distinct (map fst ?b)"
    by (intro impI fold_task_keys_distinct) (simp add: distinct_update)
  from m' assms(1) have "map_of ?b ''priority'' = Some p"
    by (simp add: map_add_def restrict_map_def)
  then have ne: "?b \<noteq> []" by (cases ?b) auto
  from r m' d ne show ?thesis by blast
qed

lemma finish_star_meta:
  "finish_star clf task None [] False w = (add_task_fields task [], w)"
  by (simp add: finish_star_def split: sum.splits)

lemma load_star_meta_eq:
  "classifier_key clf = ''meta'' \<Longrightarrow>
   load_star C clf task fname w = (add_task_fields task [], w)"
  by (simp add: load_star_def finish_star_meta)

lemmas loader_defs =
  load_star_def load_lightcurve_def endswith_def read_cache_def calc_features_def
  finish_star_def add_task_fields_def savePickle_def loadPickle_def os_path_exists_def
  dict_get_def dict_update_def os_path_join_def Let_def

lemmas loader_example_defs =
  example_collaborators_def example_task_def example_classifier_def empty_world_def

lemma read_cache_enabled:
  assumes "features_cache clf = Some cache" and "cache \<noteq> []"
    and "map_of task ''priority'' = Some p"
  shows "read_cache C clf task w =
     Inr (Some (os_path_join cache (''features-'' @ str C p @ ''.pickle'')),
          case map_of (pickles w) (os_path_join cache (''features-'' @ str C p @ ''.pickle'')) of
            None \<Rightarrow> [] | Some cached \<Rightarrow> cached)"
  using assms
  by (simp add: read_cache_def dict_get_def Let_def os_path_exists_def loadPickle_def
      split: option.splits)

lemma add_task_fields_eq:
  assumes "map_of task ''priority'' = Some p" and "map_of task ''starid'' = Some s"
  shows "add_task_fields task features =
     Inr (fold (\<lambda>k f. case map_of task k of Some v \<Rightarrow> AList.update k v f | None \<Rightarrow> f)
            [''tmag'', ''variance'', ''rms_hour'', ''ptp'', ''other_classifiers'']
            (AList.update ''starid'' s (AList.update ''priority'' p features)))"
  using assms by (simp add: add_task_fields_def dict_get_def Let_def)

lemma finish_star_not_saving:
  "finish_star clf task features_file features False w = (add_task_fields task features, w)"
  by (simp add: finish_star_def split: sum.splits)

lemma finish_star_saving:
  assumes "features_cache clf = Some cache" and "cache \<noteq> []"
  shows "finish_star clf task (Some fname) features True w
     = (case add_task_fields task features of
          Inl e \<Rightarrow> (Inl e, w)
        | Inr attached \<Rightarrow> (Inr attached, w\<lparr>pickles := AList.update fname attached (pickles w)\<rparr>))"
  using assms by (simp add: finish_star_def savePickle_def split: sum.splits)

lemma update_values:
  "snd ` set (AList.update k v al) \<subseteq> insert v (snd ` set al)"
  by (induction al) auto

lemma add_task_fields_nonempty:
  assumes "add_task_fields task features = Inr attached"
  shows "attached \<noteq> []"
proof -
  from assms obtain p s where ps: "map_of task ''priority'' = Some p" "map_of task ''starid'' = Some s"
    by (auto simp: add_task_fields_def dict_get_def Let_def split: option.splits)
  let ?ks = "[''tmag'', ''variance'', ''rms_hour'', ''ptp'', ''other_classifiers'']"
  let ?b = "fold (\<lambda>k f. case map_of task k of Some v \<Rightarrow> AList.update k v f | None \<Rightarrow> f) ?ks
              (AList.update ''starid'' s (AList.update ''priority'' p features))"
  from assms have eq: "attached = ?b"
    unfolding add_task_fields_eq [OF ps] by simp
  have "map_of ?b ''priority'' = Some p"
    unfolding fold_task_keys by (simp add: map_add_def restrict_map_def update_conv')
  then have "?b \<noteq> []" by auto
  with eq show ?thesis by simp
qed

lemma finish_star_cases:
  "finish_star clf task features_file features save_to_cache w = (r, w') \<Longrightarrow>
   w' = w \<or> (\<exists>attached fname. attached \<noteq> []
                \<and> w' = w\<lparr>pickles := AList.update fname attached (pickles w)\<rparr>)"
  by (auto simp: finish_star_def savePickle_def
      dest!: add_task_fields_nonempty add_task_fields_nonempty [OF sym]
      split: if_splits option.splits sum.splits)

lemma finish_star_pickles:
  assumes "finish_star clf task features_file features save_to_cache w = (r, w')"
    and "\<forall>b \<in> snd ` set (pickles w). b \<noteq> []"
  shows "\<forall>b \<in> snd ` set (pickles w'). b \<noteq> []"
proof (cases "w' = w")
  case True
  with assms(2) show ?thesis by simp
next
  case False
  with finish_star_cases [OF assms(1)] obtain attached fname where ne: "attached \<noteq> []"
    and w': "w' = w\<lparr>pickles := AList.update fname attached (pickles w)\<rparr>"
    by blast
  have "snd ` set (pickles w') \<subseteq> insert attached (snd ` set (pickles w))"
    unfolding w' using update_values [of fname attached "pickles w"] by simp
  with assms(2) ne show ?thesis by blast
qed

lemma load_star_writes_nonempty:
  assumes "\<forall>b \<in> snd ` set (pickles w). b \<noteq> []"
  shows "\<forall>b \<in> snd ` set (pickles (snd (load_star C clf task fname w))). b \<noteq> []"
proof (cases "classifier_key clf = ''meta''")
  case True
  with assms show ?thesis by (simp add: load_star_meta_eq)
next
  case False
  obtain lr w1 where ll: "load_lightcurve C task fname w = (lr, w1)"
    by (cases "load_lightcurve C task fname w")
  from load_lightcurve_world [OF ll] have pk: "pickles w1 = pickles w" by auto
  show ?thesis
  proof (cases lr)
    case (Inl e)
    with False ll pk assms show ?thesis by (simp add: load_star_def)
  next
    case (Inr lc)
    show ?thesis
    proof (cases "read_cache C clf task w1")
      case Inl': (Inl e)
      with False ll Inr pk assms show ?thesis by (simp add: load_star_def)
    next
      case Inr': (Inr ff)
      obtain features_file features where ff: "ff = (features_file, features)" by (cases ff)
      show ?thesis
      proof (cases "features = []")
        case ne: False
        obtain r w' where fs: "finish_star clf task features_file features False w1 = (r, w')"
          by (cases "finish_star clf task features_file features False w1")
        from finish_star_pickles [OF fs] pk assms
        have "\<forall>b \<in> snd ` set (pickles w'). b \<noteq> []" by simp
        with False ll Inr Inr' ff ne fs show ?thesis by (simp add: load_star_def)
      next
        case True
        obtain cr w2 where cf: "calc_features C lc w1 = (cr, w2)"
          by (cases "calc_features C lc w1")
        from calc_features_world [of C lc w1] cf pk have pk2: "pickles w2 = pickles w" by simp
        show ?thesis
        proof (cases cr)
          case Inl'': (Inl e)
          with False ll Inr Inr' ff True cf pk2 assms show ?thesis by (simp add: load_star_def)
        next
          case Inr'': (Inr calculated)
          obtain r w' where fs: "finish_star clf task features_file calculated True
              (w2\<lparr>logged := logged w2 @ [Debug_Features calculated]\<rparr>) = (r, w')"
            by (cases "finish_star clf task features_file calculated True
              (w2\<lparr>logged := logged w2 @ [Debug_Features calculated]\<rparr>)")
          from finish_star_pickles [OF fs] pk2 assms
          have "\<forall>b \<in> snd ` set (pickles w'). b \<noteq> []" by simp
          with False ll Inr Inr' ff True cf Inr'' fs show ?thesis by (simp add: load_star_def)
        qed
      qed
    qed
  qed
qed

subsection \<open>Unrecognized file names\<close>

text \<open>
  Claim C7. For a classifier whose key is not \<^verbatim>\<open>meta\<close> and a file name that ends in
  none of \<^verbatim>\<open>.noisy\<close>, \<^verbatim>\<open>.sysnoise\<close>, \<^verbatim>\<open>.txt\<close>, \<^verbatim>\<open>.clean\<close>, \<^verbatim>\<open>.fits\<close>,
  \<^verbatim>\<open>.fits.gz\<close>, \<^verbatim>\<open>load_star\<close> raises the \<^verbatim>\<open>ValueError\<close> "Invalid file format"
  (the spec's InvalidFormat) and leaves the world as it found it: no file has been
  opened, \<^verbatim>\<open>calc_features\<close> has not been invoked, the cache has been neither read nor
  written, whatever the task and the cache configuration are.
\<close>

theorem load_star_invalid_format:
  assumes "classifier_key clf \<noteq> ''meta''"
    and "\<forall>sfx \<in> set [''.noisy'', ''.sysnoise'', ''.txt'', ''.clean'', ''.fits'', ''.fits.gz''].
           \<not> (\<exists>p. fname = p @ sfx)"
  shows "load_star C clf task fname w = (Inl (ValueError InvalidFileFormat), w)"
proof -
  from assms(2) have "\<forall>sfx \<in> set [''.noisy'', ''.sysnoise'', ''.txt'', ''.clean'', ''.fits'', ''.fits.gz''].
           \<not> endswith fname sfx"
    unfolding endswith_iff .
  then have "load_lightcurve C task fname w = (Inl (ValueError InvalidFileFormat), w)"
    by (simp add: load_lightcurve_def)
  with assms(1) show ?thesis by (simp add: load_star_def)
qed

text \<open>A file name ending in \<^verbatim>\<open>.csv\<close>, with a cache configured.\<close>

theorem load_star_invalid_format_witness:
  "classifier_key (example_classifier ''rfgc'' L1 (Some ''/cache'')) \<noteq> ''meta''
   \<and> load_star example_collaborators (example_classifier ''rfgc'' L1 (Some ''/cache''))
        example_task ''star.csv'' empty_world
      = (Inl (ValueError InvalidFileFormat), empty_world)"
proof -
  have h1: "classifier_key (example_classifier ''rfgc'' L1 (Some ''/cache'')) \<noteq> ''meta''"
    by (simp add: example_classifier_def)
  have h2: "\<forall>sfx \<in> set [''.noisy'', ''.sysnoise'', ''.txt'', ''.clean'', ''.fits'', ''.fits.gz''].
           \<not> (\<exists>p. ''star.csv'' = p @ sfx)"
    unfolding endswith_iff [symmetric] by (simp add: endswith_def)
  from load_star_invalid_format [OF h1 h2] h1 show ?thesis by (intro conjI)
qed

subsection \<open>The meta classifier\<close>

text \<open>
  Claim C8. Under the classifier key \<^verbatim>\<open>meta\<close>, for a task that has its priority and
  its star id, \<^verbatim>\<open>load_star\<close> returns normally and leaves the world as it found it
  (no file is opened, nothing is computed, the cache is not touched). The result is the
  same for every file name and whatever the collaborators would do, so the observation
  file is never looked at and the error for an invalid file format cannot occur. The
  bundle returned has one item per key among \<^verbatim>\<open>priority\<close>, \<^verbatim>\<open>starid\<close>, \<^verbatim>\<open>tmag\<close>,
  \<^verbatim>\<open>variance\<close>, \<^verbatim>\<open>rms_hour\<close>, \<^verbatim>\<open>ptp\<close>, \<^verbatim>\<open>other_classifiers\<close> that the task has,
  with the task's value, and no other item: no light curve, no power spectrum, no
  derived feature.
\<close>

theorem load_star_meta:
  assumes "classifier_key clf = ''meta''"
    and "map_of task ''priority'' = Some p" and "map_of task ''starid'' = Some s"
  shows "\<exists>features.
       (\<forall>C' fname'. load_star C' clf task fname' w = (Inr features, w))
     \<and> map_of features =
         map_of task |` {''priority'', ''starid'', ''tmag'', ''variance'', ''rms_hour'', ''ptp'',
                          ''other_classifiers''}
     \<and> distinct (map fst features)"
proof -
  note eq = load_star_meta_eq [OF assms(1), of _ task _ w]
  from add_task_fields_ok [OF assms(2,3), of "[]"] eq [of C fname]
  obtain attached where
    b: "load_star C clf task fname w = (Inr attached, w)"
    and m: "map_of attached = map_of []
          ++ (map_of task |` {''priority'', ''starid'', ''tmag'', ''variance'', ''rms_hour'', ''ptp'',
                               ''other_classifiers''})"
    and d: "distinct (map fst attached)"
    by auto
  from b eq [of C fname] have "\<forall>C' fname'. load_star C' clf task fname' w = (Inr attached, w)"
    by (simp add: eq)
  with m d show ?thesis by (intro exI [of _ attached]) simp
qed

text \<open>The example task under the key \<^verbatim>\<open>meta\<close>, with a file name that names no file.\<close>

lemma example_meta_load:
  "load_star example_collaborators (example_classifier ''meta'' L1 (Some ''/cache''))
        example_task ''nowhere'' empty_world
   = (Inr [(''priority'', ''17''), (''starid'', ''4711''), (''tmag'', ''9.5'')], empty_world)"
  by (simp add: loader_defs loader_example_defs)

theorem load_star_meta_witness:
  "classifier_key (example_classifier ''meta'' L1 (Some ''/cache'')) = ''meta''
   \<and> map_of example_task ''priority'' = Some ''17''
   \<and> map_of example_task ''starid'' = Some ''4711''
   \<and> (\<exists>features.
        (\<forall>C' fname'. load_star C' (example_classifier ''meta'' L1 (Some ''/cache'')) example_task
            fname' empty_world = (Inr features, empty_world))
        \<and> features = [(''priority'', ''17''), (''starid'', ''4711''), (''tmag'', ''9.5'')]
        \<and> map_of features =
            map_of example_task |` {''priority'', ''starid'', ''tmag'', ''variance'', ''rms_hour'',
                                     ''ptp'', ''other_classifiers''})"
proof -
  let ?clf = "example_classifier ''meta'' L1 (Some ''/cache'')"
  have h1: "classifier_key ?clf = ''meta''" by (simp add: example_classifier_def)
  have h2: "map_of example_task ''priority'' = Some ''17''" by (simp add: example_task_def)
  have h3: "map_of example_task ''starid'' = Some ''4711''" by (simp add: example_task_def)
  from load_star_meta [OF h1 h2 h3, of empty_world] obtain features where
    f: "\<forall>C' fname'. load_star C' ?clf example_task fname' empty_world
          = (Inr features :: string error + _, empty_world)"
    and m: "map_of features =
            map_of example_task |` {''priority'', ''starid'', ''tmag'', ''variance'', ''rms_hour'',
                                     ''ptp'', ''other_classifiers''}"
    by blast
  from f example_meta_load have "features = [(''priority'', ''17''), (''starid'', ''4711''), (''tmag'', ''9.5'')]"
    by simp
  with f m h1 h2 h3 show ?thesis by blast
qed

text \<open>
  Claim C10. Under the classifier key \<^verbatim>\<open>meta\<close>, \<^verbatim>\<open>load_star\<close> writes no cache file,
  for every task (also one for which it raises) and also when a cache directory is
  configured: the pickle files after the call are those before it. Indeed nothing of
  the world changes.
\<close>

theorem load_star_meta_no_cache_write:
  "classifier_key clf = ''meta'' \<Longrightarrow>
   pickles (snd (load_star C clf task fname w)) = pickles w
   \<and> snd (load_star C clf task fname w) = w"
  by (simp add: load_star_meta_eq)

text \<open>The key \<^verbatim>\<open>meta\<close> with the cache directory \<^verbatim>\<open>/cache\<close> configured.\<close>

theorem load_star_meta_no_cache_write_witness:
  "classifier_key (example_classifier ''meta'' L1 (Some ''/cache'')) = ''meta''
   \<and> features_cache (example_classifier ''meta'' L1 (Some ''/cache'')) = Some ''/cache''
   \<and> pickles (snd (load_star example_collaborators (example_classifier ''meta'' L1 (Some ''/cache''))
        example_task ''star.txt'' empty_world)) = pickles empty_world"
proof -
  have h: "classifier_key (example_classifier ''meta'' L1 (Some ''/cache'')) = ''meta''"
    by (simp add: example_classifier_def)
  from load_star_meta_no_cache_write [OF h, of example_collaborators example_task "''star.txt''"
      empty_world] h
  show ?thesis by (simp add: example_classifier_def)
qed

subsection \<open>The feature cache\<close>

text \<open>
  Claim C9, as amended. Take a call of \<^verbatim>\<open>load_star\<close> with a classifier key other
  than \<^verbatim>\<open>meta\<close>, a cache directory configured, a task with priority and star id, and
  an observation file from which the light curve is loaded. The cache file is the one
  named \<^verbatim>\<open>features-<priority>.pickle\<close> in the cache directory.
  \<^item> When the cache file exists and holds a non-empty bundle, the result is that bundle
    with the task's fields attached, \<^verbatim>\<open>calc_features\<close> is not invoked and no cache
    file is written.
  \<^item> When the cache file is absent, or holds the empty bundle, \<^verbatim>\<open>calc_features\<close> is
    invoked, once, on the light curve. If it raises, the error is passed on and no
    cache file is written. If it returns, the result is what it calculated with the
    task's fields attached, and exactly this bundle is written to the cache file, in
    one write.
\<close>

theorem load_star_cache:
  assumes "classifier_key clf \<noteq> ''meta''"
    and "features_cache clf = Some cache" and "cache \<noteq> []"
    and "load_lightcurve C task fname w = (Inr lightcurve, w1)"
    and "map_of task ''priority'' = Some p" and "map_of task ''starid'' = Some s"
    and "features_file = os_path_join cache (''features-'' @ str C p @ ''.pickle'')"
  shows "(\<forall>cached. map_of (pickles w) features_file = Some cached \<and> cached \<noteq> [] \<longrightarrow>
            fst (load_star C clf task fname w) = add_task_fields task cached
            \<and> (\<exists>features. fst (load_star C clf task fname w) = Inr features)
            \<and> computed (snd (load_star C clf task fname w)) = computed w
            \<and> pickles (snd (load_star C clf task fname w)) = pickles w)
       \<and> (map_of (pickles w) features_file = None \<or> map_of (pickles w) features_file = Some [] \<longrightarrow>
            computed (snd (load_star C clf task fname w)) = computed w @ [lightcurve]
            \<and> (case fst (load_star C clf task fname w) of
                 Inl e \<Rightarrow> fst (calc_features C lightcurve w1) = Inl e
                         \<and> pickles (snd (load_star C clf task fname w)) = pickles w
               | Inr features \<Rightarrow>
                   (\<exists>calculated. fst (calc_features C lightcurve w1) = Inr calculated
                        \<and> fst (load_star C clf task fname w) = add_task_fields task calculated)
                   \<and> pickles (snd (load_star C clf task fname w))
                       = AList.update features_file features (pickles w)))"
proof (intro conjI allI impI)
  note w1 = load_lightcurve_Inr [OF assms(4)]
  have pk: "pickles w1 = pickles w" and cp: "computed w1 = computed w" by (simp_all add: w1)
  note rc = read_cache_enabled [OF assms(2,3,5), of C w1, folded assms(7), unfolded pk]
  note atf = add_task_fields_eq [OF assms(5,6)]
  {
    fix cached
    assume hit: "map_of (pickles w) features_file = Some cached \<and> cached \<noteq> []"
    with assms(1,4) rc have ls: "load_star C clf task fname w = (add_task_fields task cached, w1)"
      by (simp add: load_star_def finish_star_not_saving)
    from ls pk cp
    show "fst (load_star C clf task fname w) = add_task_fields task cached"
      and "\<exists>features. fst (load_star C clf task fname w) = Inr features"
      and "computed (snd (load_star C clf task fname w)) = computed w"
      and "pickles (snd (load_star C clf task fname w)) = pickles w"
      by (simp_all add: atf)
  }
  assume miss: "map_of (pickles w) features_file = None \<or> map_of (pickles w) features_file = Some []"
  obtain cr w2 where cf: "calc_features C lightcurve w1 = (cr, w2)"
    by (cases "calc_features C lightcurve w1")
  from calc_features_world [of C lightcurve w1] cf
  have w2: "w2 = w1\<lparr>computed := computed w1 @ [lightcurve]\<rparr>" by simp
  have step: "load_star C clf task fname w =
      (case cr of Inl e \<Rightarrow> (Inl e, w2)
       | Inr calculated \<Rightarrow> finish_star clf task (Some features_file) calculated True
            (w2\<lparr>logged := logged w2 @ [Debug_Features calculated]\<rparr>))"
    using assms(1,4) rc miss cf by (auto simp: load_star_def split: sum.splits)
  show "computed (snd (load_star C clf task fname w)) = computed w @ [lightcurve]"
    unfolding step finish_star_saving [OF assms(2,3)] atf
    by (cases cr) (simp_all add: w2 cp)
  show "case fst (load_star C clf task fname w) of
                 Inl e \<Rightarrow> fst (calc_features C lightcurve w1) = Inl e
                         \<and> pickles (snd (load_star C clf task fname w)) = pickles w
               | Inr features \<Rightarrow>
                   (\<exists>calculated. fst (calc_features C lightcurve w1) = Inr calculated
                        \<and> fst (load_star C clf task fname w) = add_task_fields task calculated)
                   \<and> pickles (snd (load_star C clf task fname w))
                       = AList.update features_file features (pickles w)"
    unfolding step finish_star_saving [OF assms(2,3)] atf cf
    by (cases cr) (simp_all add: w2 pk)
qed

text \<open>
  The example task on an empty cache, on a cache that holds a bundle for it, and on a
  cache whose file for it holds the empty bundle.
\<close>

lemma example_load_miss:
  "load_star example_collaborators (example_classifier ''rfgc'' L1 (Some ''/cache''))
     example_task ''star.txt'' empty_world
   = (Inr [(''lightcurve'', ''lc''), (''powerspectrum'', ''psd''), (''freq1'', ''f1''),
           (''Fp07'', ''p7''), (''priority'', ''17''), (''starid'', ''4711''), (''tmag'', ''9.5'')],
      empty_world
       \<lparr> logged := [Debug_Features [(''lightcurve'', ''lc''), (''powerspectrum'', ''psd''),
                      (''freq1'', ''f1''), (''Fp07'', ''p7'')]],
         opened := [''star.txt''],
         pickles := [(''/cache/features-17.pickle'',
            [(''lightcurve'', ''lc''), (''powerspectrum'', ''psd''), (''freq1'', ''f1''),
             (''Fp07'', ''p7''), (''priority'', ''17''), (''starid'', ''4711''), (''tmag'', ''9.5'')])],
         computed := [''lc''] \<rparr>)"
  by (simp add: loader_defs loader_example_defs)

lemma example_load_hit:
  "load_star example_collaborators (example_classifier ''rfgc'' L1 (Some ''/cache''))
     example_task ''star.txt''
     (empty_world\<lparr>pickles := [(''/cache/features-17.pickle'', [(''lightcurve'', ''old'')])]\<rparr>)
   = (Inr [(''lightcurve'', ''old''), (''priority'', ''17''), (''starid'', ''4711''), (''tmag'', ''9.5'')],
      empty_world
       \<lparr> opened := [''star.txt''],
         pickles := [(''/cache/features-17.pickle'', [(''lightcurve'', ''old'')])] \<rparr>)"
  by (simp add: loader_defs loader_example_defs)

lemma example_load_empty_pickle:
  "load_star example_collaborators (example_classifier ''rfgc'' L1 (Some ''/cache''))
     example_task ''star.txt''
     (empty_world\<lparr>pickles := [(''/cache/features-17.pickle'', [])]\<rparr>)
   = (Inr [(''lightcurve'', ''lc''), (''powerspectrum'', ''psd''), (''freq1'', ''f1''),
           (''Fp07'', ''p7''), (''priority'', ''17''), (''starid'', ''4711''), (''tmag'', ''9.5'')],
      empty_world
       \<lparr> logged := [Debug_Features [(''lightcurve'', ''lc''), (''powerspectrum'', ''psd''),
                      (''freq1'', ''f1''), (''Fp07'', ''p7'')]],
         opened := [''star.txt''],
         pickles := [(''/cache/features-17.pickle'',
            [(''lightcurve'', ''lc''), (''powerspectrum'', ''psd''), (''freq1'', ''f1''),
             (''Fp07'', ''p7''), (''priority'', ''17''), (''starid'', ''4711''), (''tmag'', ''9.5'')])],
         computed := [''lc''] \<rparr>)"
  by (simp add: loader_defs loader_example_defs)

text \<open>
  Claim C9 as the spec states it makes the absence of the cache file the only trigger
  for recomputation. The loader recomputes whenever the bundle is empty after the
  lookup (\<^verbatim>\<open>if not features\<close>): here the cache file of the task exists and holds the
  empty bundle, and \<^verbatim>\<open>calc_features\<close> is invoked and the file is written anew.
\<close>

theorem load_star_cache_counterexample:
  "classifier_key (example_classifier ''rfgc'' L1 (Some ''/cache'')) \<noteq> ''meta''
   \<and> features_cache (example_classifier ''rfgc'' L1 (Some ''/cache'')) = Some ''/cache''
   \<and> os_path_join ''/cache'' (''features-'' @ str example_collaborators ''17'' @ ''.pickle'')
       = ''/cache/features-17.pickle''
   \<and> os_path_exists (empty_world\<lparr>pickles := [(''/cache/features-17.pickle'', [])]\<rparr>
         :: (string, string, string) world) ''/cache/features-17.pickle''
   \<and> computed (snd (load_star example_collaborators (example_classifier ''rfgc'' L1 (Some ''/cache''))
        example_task ''star.txt''
        (empty_world\<lparr>pickles := [(''/cache/features-17.pickle'', [])]\<rparr>))) = [''lc'']
   \<and> pickles (snd (load_star example_collaborators (example_classifier ''rfgc'' L1 (Some ''/cache''))
        example_task ''star.txt''
        (empty_world\<lparr>pickles := [(''/cache/features-17.pickle'', [])]\<rparr>)))
       \<noteq> [(''/cache/features-17.pickle'', [])]"
  unfolding example_load_empty_pickle
  by (simp add: loader_example_defs os_path_join_def os_path_exists_def)

text \<open>The amended statement on the cache that holds a bundle and on the empty cache.\<close>

theorem load_star_cache_witness:
  "classifier_key (example_classifier ''rfgc'' L1 (Some ''/cache'')) \<noteq> ''meta''
   \<and> features_cache (example_classifier ''rfgc'' L1 (Some ''/cache'')) = Some ''/cache''
   \<and> computed (snd (load_star example_collaborators (example_classifier ''rfgc'' L1 (Some ''/cache''))
        example_task ''star.txt''
        (empty_world\<lparr>pickles := [(''/cache/features-17.pickle'', [(''lightcurve'', ''old'')])]\<rparr>)))
       = []
   \<and> pickles (snd (load_star example_collaborators (example_classifier ''rfgc'' L1 (Some ''/cache''))
        example_task ''star.txt''
        (empty_world\<lparr>pickles := [(''/cache/features-17.pickle'', [(''lightcurve'', ''old'')])]\<rparr>)))
       = [(''/cache/features-17.pickle'', [(''lightcurve'', ''old'')])]
   \<and> computed (snd (load_star example_collaborators (example_classifier ''rfgc'' L1 (Some ''/cache''))
        example_task ''star.txt'' empty_world)) = [''lc'']
   \<and> pickles (snd (load_star example_collaborators (example_classifier ''rfgc'' L1 (Some ''/cache''))
        example_task ''star.txt'' empty_world))
       = [(''/cache/features-17.pickle'',
            [(''lightcurve'', ''lc''), (''powerspectrum'', ''psd''), (''freq1'', ''f1''),
             (''Fp07'', ''p7''), (''priority'', ''17''), (''starid'', ''4711''), (''tmag'', ''9.5'')])]"
proof -
  let ?clf = "example_classifier ''rfgc'' L1 (Some ''/cache'')"
  let ?hit = "empty_world\<lparr>pickles := [(''/cache/features-17.pickle'', [(''lightcurve'', ''old'')])]\<rparr>"
  let ?ff = "''/cache/features-17.pickle''"
  have h1: "classifier_key ?clf \<noteq> ''meta''" by (simp add: example_classifier_def)
  have h2: "features_cache ?clf = Some ''/cache''" by (simp add: example_classifier_def)
  have h3: "''/cache'' \<noteq> []" by simp
  have h4: "load_lightcurve example_collaborators example_task ''star.txt'' ?hit
      = (Inr ''lc'', ?hit\<lparr>opened := [''star.txt'']\<rparr>)"
    by (simp add: loader_defs loader_example_defs)
  have h4': "load_lightcurve example_collaborators example_task ''star.txt'' empty_world
      = (Inr ''lc'', empty_world\<lparr>opened := [''star.txt'']\<rparr>)"
    by (simp add: loader_defs loader_example_defs)
  have h5: "map_of example_task ''priority'' = Some ''17''" by (simp add: example_task_def)
  have h6: "map_of example_task ''starid'' = Some ''4711''" by (simp add: example_task_def)
  have h7: "?ff = os_path_join ''/cache'' (''features-'' @ str example_collaborators ''17'' @ ''.pickle'')"
    by (simp add: os_path_join_def example_collaborators_def)
  have hit: "map_of (pickles ?hit) ?ff = Some [(''lightcurve'', ''old'')]
      \<and> [(''lightcurve'', ''old'')] \<noteq> ([] :: string feature_bundle)"
    by (simp add: empty_world_def)
  have miss: "map_of (pickles empty_world) ?ff = None \<or> map_of (pickles empty_world) ?ff = Some []"
    by (simp add: empty_world_def)
  note on_hit = load_star_cache [OF h1 h2 h3 h4 h5 h6 h7, THEN conjunct1, rule_format, OF hit]
  note on_miss = load_star_cache [OF h1 h2 h3 h4' h5 h6 h7, THEN conjunct2, rule_format, OF miss]
  from on_hit have a: "computed (snd (load_star example_collaborators ?clf example_task ''star.txt'' ?hit)) = []"
    and b: "pickles (snd (load_star example_collaborators ?clf example_task ''star.txt'' ?hit))
       = [(''/cache/features-17.pickle'', [(''lightcurve'', ''old'')])]"
    by (simp_all add: empty_world_def)
  from on_miss have c: "computed (snd (load_star example_collaborators ?clf example_task ''star.txt''
      empty_world)) = [''lc'']"
    by (simp add: empty_world_def)
  from on_miss [THEN conjunct2] have d: "pickles (snd (load_star example_collaborators ?clf example_task
        ''star.txt'' empty_world))
       = [(''/cache/features-17.pickle'',
            [(''lightcurve'', ''lc''), (''powerspectrum'', ''psd''), (''freq1'', ''f1''),
             (''Fp07'', ''p7''), (''priority'', ''17''), (''starid'', ''4711''), (''tmag'', ''9.5'')])]"
    unfolding example_load_miss by (simp add: empty_world_def)
  from h1 h2 a b c d show ?thesis by (intro conjI)
qed

end
